theory Spec2Isabelle
  imports Main "HOL-Library.Sublist"
begin

section \<open>JavaScript strings\<close>

text \<open>
  A JavaScript string is a sequence of UTF-16 code units. The model keeps the code units
  below 256 (ASCII and Latin-1), one \<^typ>\<open>char\<close> each, so a JavaScript string is a
  \<^typ>\<open>string\<close>. On that range \<open>String.prototype.toLowerCase\<close> maps the
  letters A to Z (65 to 90) and the Latin-1 capitals (192 to 222, without the
  multiplication sign 215) to the code unit 32 above, and leaves everything else in place.
\<close>

definition toLowerCase_char :: "char \<Rightarrow> char" where
  "toLowerCase_char c =
     (let n = (of_char c :: nat)
      in if (65 \<le> n \<and> n \<le> 90) \<or> (192 \<le> n \<and> n \<le> 222 \<and> n \<noteq> 215)
         then char_of (n + 32) else c)"

definition toLowerCase :: "string \<Rightarrow> string" where
  "toLowerCase s = map toLowerCase_char s"

text \<open>\<open>!s\<close> for a string \<open>s\<close>: only the empty string is falsy.\<close>

definition falsy :: "string \<Rightarrow> bool" where
  "falsy s = (s = [])"

text \<open>\<open>Array.prototype.join\<close> on an array of strings.\<close>

fun join :: "string \<Rightarrow> string list \<Rightarrow> string" where
  "join sep [] = []"
| "join sep [x] = x"
| "join sep (x # y # ys) = x @ sep @ join sep (y # ys)"

text \<open>\<open>Array.prototype.includes\<close> on an array of strings.\<close>

definition array_includes :: "string list \<Rightarrow> string \<Rightarrow> bool" where
  "array_includes xs x = (x \<in> set xs)"

section \<open>The status tool, variant with \<open>result\<close>, \<open>reason\<close> and \<open>mismatch_detail\<close>\<close>

definition VALID_STATUSES :: "string list" where
  "VALID_STATUSES = [''success'', ''failure'', ''rejected'', ''interrupted'']"

text \<open>
  \<open>ReportStatusParams\<close> and \<open>NormalizedReportStatusParams\<close> have the same fields; the
  cast \<open>as StatusType\<close> checks nothing at run time, so \<open>status\<close> is a string in both.
  An optional field is \<open>None\<close> when it is \<open>undefined\<close>.
\<close>

record ReportStatusParams =
  status :: string
  result :: string
  reason :: "string option"
  mismatch_detail :: "string option"

type_synonym NormalizedReportStatusParams = ReportStatusParams

definition validateToolParamValues :: "ReportStatusParams \<Rightarrow> string option" where
  \<open>validateToolParamValues params =
     (if falsy (status params) then Some ''status is required''
      else if falsy (result params) then Some ''result is required''
      else let normalizedStatus = toLowerCase (status params)
           in if \<not> array_includes VALID_STATUSES normalizedStatus
              then Some (''Invalid status "'' @ status params @ ''". Must be one of: ''
                         @ join '', '' VALID_STATUSES @ '' (case-insensitive)'')
              else None)\<close>

definition createInvocation :: "ReportStatusParams \<Rightarrow> NormalizedReportStatusParams" where
  "createInvocation params =
     \<lparr> status = toLowerCase (status params),
       result = result params,
       reason = reason params,
       mismatch_detail = mismatch_detail params \<rparr>"

section \<open>The status tool, variant with \<open>message\<close>\<close>

record ReportStatusParams_msg =
  status_msg :: string
  message :: string

type_synonym NormalizedReportStatusParams_msg = ReportStatusParams_msg

definition validateToolParamValues_msg :: "ReportStatusParams_msg \<Rightarrow> string option" where
  \<open>validateToolParamValues_msg params =
     (if falsy (status_msg params) then Some ''status is required''
      else if falsy (message params) then Some ''message is required''
      else let normalizedStatus = toLowerCase (status_msg params)
           in if \<not> array_includes VALID_STATUSES normalizedStatus
              then Some (''Invalid status "'' @ status_msg params @ ''". Must be one of: ''
                         @ join '', '' VALID_STATUSES @ '' (case-insensitive)'')
              else None)\<close>

definition createInvocation_msg :: "ReportStatusParams_msg \<Rightarrow> NormalizedReportStatusParams_msg" where
  "createInvocation_msg params =
     \<lparr> status_msg = toLowerCase (status_msg params),
       message = message params \<rparr>"


text \<open>
  Modelled from the spec: the base class \<open>BaseDeclarativeTool\<close> (\<open>tools.js\<close>) that calls
  \<open>validateToolParamValues\<close> and \<open>createInvocation\<close> is not among the sources. The
  spec says that validation runs before the record is built, that a failed validation
  returns the descriptive error and constructs no record, and that a successful one
  produces the normalized record.
\<close>

definition build :: "ReportStatusParams \<Rightarrow> string + NormalizedReportStatusParams" where
  "build params =
     (case validateToolParamValues params of
        Some e \<Rightarrow> Inl e
      | None \<Rightarrow> Inr (createInvocation params))"

definition build_msg :: "ReportStatusParams_msg \<Rightarrow> string + NormalizedReportStatusParams_msg" where
  "build_msg params =
     (case validateToolParamValues_msg params of
        Some e \<Rightarrow> Inl e
      | None \<Rightarrow> Inr (createInvocation_msg params))"

subsection \<open>Case variants of a token\<close>

text \<open>
  \<open>case_variant s t\<close>: the string \<open>s\<close> is the token \<open>t\<close> with some of its lowercase
  ASCII letters written as capitals. This is the notion the specification uses for the
  accepted spellings of a status; it does not mention \<open>toLowerCase\<close>.
\<close>

definition ascii_lower :: "char \<Rightarrow> bool" where
  "ascii_lower d = (97 \<le> (of_char d :: nat) \<and> (of_char d :: nat) \<le> 122)"

fun case_variant :: "string \<Rightarrow> string \<Rightarrow> bool" where
  "case_variant [] [] = True"
| "case_variant (c # cs) (d # ds) =
     ((c = d \<or> (ascii_lower d \<and> (of_char c :: nat) + 32 = of_char d)) \<and> case_variant cs ds)"
| "case_variant _ _ = False"

section \<open>JSON.stringify on an object with string properties\<close>

text \<open>
  \<open>QuoteJSONString\<close> of ECMAScript: the two-character escapes for backspace, tab, line
  feed, form feed, carriage return, the double quote and the backslash; \<open>\u00XX\<close> with
  lowercase hexadecimal digits for the other code units below 32; every other code unit
  as it is.
\<close>

definition hex_digit :: "nat \<Rightarrow> char" where
  "hex_digit n = ''0123456789abcdef'' ! (n mod 16)"

definition quote_char :: "char \<Rightarrow> string" where
  "quote_char c =
     (let n = (of_char c :: nat)
      in if n = 8 then [CHR 0x5C, CHR ''b'']
         else if n = 9 then [CHR 0x5C, CHR ''t'']
         else if n = 10 then [CHR 0x5C, CHR ''n'']
         else if n = 12 then [CHR 0x5C, CHR ''f'']
         else if n = 13 then [CHR 0x5C, CHR ''r'']
         else if n = 34 then [CHR 0x5C, CHR 0x22]
         else if n = 92 then [CHR 0x5C, CHR 0x5C]
         else if n < 32 then [CHR 0x5C, CHR ''u'', CHR ''0'', CHR ''0'',
                              hex_digit (n div 16), hex_digit (n mod 16)]
         else [c])"

definition QuoteJSONString :: "string \<Rightarrow> string" where
  "QuoteJSONString s = CHR 0x22 # concat (map quote_char s) @ [CHR 0x22]"

text \<open>
  An object is the list of its own properties in insertion order; a property whose value
  is \<open>undefined\<close> is \<open>None\<close> and \<open>JSON.stringify\<close> leaves it out.
\<close>

fun SerializeJSONProperty :: "string \<times> string option \<Rightarrow> string list" where
  "SerializeJSONProperty (k, None) = []"
| "SerializeJSONProperty (k, Some v) = [QuoteJSONString k @ '':'' @ QuoteJSONString v]"

definition JSON_stringify :: "(string \<times> string option) list \<Rightarrow> string" where
  "JSON_stringify props = ''{'' @ join '','' (concat (map SerializeJSONProperty props)) @ ''}''"

section \<open>The process\<close>

text \<open>
  A thrown value is an error object with its \<open>name\<close> and \<open>message\<close>, or a string.
  \<open>String(e)\<close> is \<open>Error.prototype.toString\<close> on the first and the string itself on
  the second.
\<close>

datatype js_value = JsError string string | JsString string

fun String_js :: "js_value \<Rightarrow> string" where
  "String_js (JsError name msg) =
     (if name = [] then msg else if msg = [] then name else name @ '': '' @ msg)"
| "String_js (JsString s) = s"

text \<open>\<open>process.env\<close> is an association list; the first entry for a key is its value.\<close>

type_synonym environ = "(string \<times> string) list"

definition getenv :: "environ \<Rightarrow> string \<Rightarrow> string option" where
  "getenv e k = map_of e k"

definition putenv :: "string \<Rightarrow> string \<Rightarrow> environ \<Rightarrow> environ" where
  "putenv k v e = (k, v) # filter (\<lambda>kv. fst kv \<noteq> k) e"

text \<open>
  The code runs in a Node process. Every effect in the process is an entry of a log, in
  the order it happens: a write to \<open>process.env\<close>, a read of \<open>process.argv\<close>, text
  written to standard output or standard error, a call of an external collaborator, and
  the exit. What lies outside the program text (the file system, the network, the state
  of the engine) is reached through collaborators only: a write to a file or a request
  over the network is a call in the log and a change of \<open>engine\<close>.
\<close>

datatype action =
    EnvSet string string
  | ArgvRead
  | Print string
  | PrintErr string
  | Call string
  | Exit nat

record 'x process =
  argv :: "string list"
  env :: environ
  cwd :: string
  engine :: 'x
  actions :: "action list"

fun printed_text :: "action \<Rightarrow> string" where
  "printed_text (Print s) = s"
| "printed_text _ = []"

fun printed_err_text :: "action \<Rightarrow> string" where
  "printed_err_text (PrintErr s) = s"
| "printed_err_text _ = []"

definition stdout :: "'x process \<Rightarrow> string" where
  "stdout p = concat (map printed_text (actions p))"

definition stderr :: "'x process \<Rightarrow> string" where
  "stderr p = concat (map printed_err_text (actions p))"

definition log_action :: "action \<Rightarrow> 'x process \<Rightarrow> 'x process" where
  "log_action a p = p\<lparr> actions := actions p @ [a] \<rparr>"

definition set_env :: "string \<Rightarrow> string \<Rightarrow> 'x process \<Rightarrow> 'x process" where
  "set_env k v p = log_action (EnvSet k v) (p\<lparr> env := putenv k v (env p) \<rparr>)"

definition console_log :: "string \<Rightarrow> 'x process \<Rightarrow> 'x process" where
  "console_log s p = log_action (Print (s @ ''\<newline>'')) p"

definition console_error :: "string \<Rightarrow> 'x process \<Rightarrow> 'x process" where
  "console_error s p = log_action (PrintErr (s @ ''\<newline>'')) p"

text \<open>
  How the process ends: \<open>process.exit(code)\<close>, or the promise of \<open>main\<close> is rejected with
  a value nobody handles.
\<close>

datatype ending = Exited nat | Rejected js_value

definition process_exit :: "nat \<Rightarrow> 'x process \<Rightarrow> ending \<times> 'x process" where
  "process_exit code p = (Exited code, log_action (Exit code) p)"

section \<open>The reporting action\<close>

text \<open>A value that is \<open>undefined\<close> or the empty string is falsy, every other string is truthy.\<close>

fun truthy :: "string option \<Rightarrow> bool" where
  "truthy None = False"
| "truthy (Some s) = (s \<noteq> [])"

datatype AbortSignal = AbortSignal (aborted: bool)

record Part =
  part_text :: string

record ToolResult =
  llmContent :: "Part list"
  returnDisplay :: string

definition own_properties :: "NormalizedReportStatusParams \<Rightarrow> (string \<times> string option) list" where
  "own_properties params =
     [(''status'', Some (status params)),
      (''result'', Some (result params)),
      (''reason'', reason params),
      (''mismatch_detail'', mismatch_detail params)]"

definition own_properties_msg :: "NormalizedReportStatusParams_msg \<Rightarrow> (string \<times> string option) list" where
  "own_properties_msg params =
     [(''status'', Some (status_msg params)),
      (''message'', Some (message params))]"

definition getDescription :: "NormalizedReportStatusParams \<Rightarrow> string" where
  "getDescription params =
     (let desc = ''Reporting status: '' @ status params @ '' - '' @ result params
      in if truthy (reason params) then desc @ '' (Reason: '' @ the (reason params) @ '')''
         else desc)"

text \<open>
  \<open>execute\<close> is an asynchronous method that runs in the process. Like every step of the
  process it is a function from the process before it to its result and the process
  after it. The source reads \<open>this.params\<close> and builds two values with
  \<open>JSON.stringify\<close> and template literals; it writes to no stream, sets no variable
  and calls no collaborator, so the process it returns is the process it received.
\<close>

definition execute ::
  "NormalizedReportStatusParams \<Rightarrow> AbortSignal \<Rightarrow> 'x process \<Rightarrow> ToolResult \<times> 'x process" where
  "execute params signal p =
     (let resultText = JSON_stringify (own_properties params);
          display = ''Status: '' @ status params @ ''\<newline>Result: '' @ result params;
          display = (if truthy (reason params)
                     then display @ ''\<newline>Reason: '' @ the (reason params) else display);
          display = (if truthy (mismatch_detail params)
                     then display @ ''\<newline>Mismatch Detail: '' @ the (mismatch_detail params)
                     else display)
      in (\<lparr> llmContent = [\<lparr> part_text = resultText \<rparr>], returnDisplay = display \<rparr>, p))"

definition getDescription_msg :: "NormalizedReportStatusParams_msg \<Rightarrow> string" where
  "getDescription_msg params =
     ''Reporting status: '' @ status_msg params @ '' - '' @ message params"

definition execute_msg ::
  "NormalizedReportStatusParams_msg \<Rightarrow> AbortSignal \<Rightarrow> 'x process \<Rightarrow> ToolResult \<times> 'x process" where
  "execute_msg params signal p =
     (let resultText = JSON_stringify (own_properties_msg params);
          display = ''Status: '' @ status_msg params @ ''\<newline>Result: '' @ message params
      in (\<lparr> llmContent = [\<lparr> part_text = resultText \<rparr>], returnDisplay = display \<rparr>, p))"

section \<open>The bridge entry point\<close>

subsection \<open>Arguments\<close>

text \<open>\<open>xs[i]\<close> on an array: \<open>undefined\<close> out of range.\<close>

definition array_at :: "string list \<Rightarrow> nat \<Rightarrow> string option" where
  "array_at xs i = (if i < length xs then Some (xs ! i) else None)"

text \<open>\<open>Array.prototype.indexOf\<close>: the first index that holds the value, or \<open>-1\<close>.\<close>

fun indexOf :: "string list \<Rightarrow> string \<Rightarrow> int" where
  "indexOf [] x = - 1"
| "indexOf (y # ys) x =
     (if y = x then 0 else (let i = indexOf ys x in if i = - 1 then - 1 else i + 1))"

definition getArgValue :: "string list \<Rightarrow> string \<Rightarrow> string option" where
  "getArgValue args argName =
     (let index = indexOf args argName
      in if index \<noteq> - 1 \<and> truthy (array_at args (nat (index + 1)))
         then array_at args (nat (index + 1))
         else None)"

text \<open>\<open>a || b\<close> on values that are strings or \<open>undefined\<close>.\<close>

definition js_or :: "string option \<Rightarrow> string option \<Rightarrow> string option" where
  "js_or a b = (if truthy a then a else b)"

text \<open>A value inside a template literal: \<open>undefined\<close> prints as the word.\<close>

fun template :: "string option \<Rightarrow> string" where
  "template None = ''undefined''"
| "template (Some s) = s"

text \<open>
  \<open>mockArgs\<close>: the fields that carry a value. The fields the source sets to
  \<open>undefined\<close> or \<open>false\<close> for features the bridge does not use are left out.
\<close>

record CliArgs =
  model :: "string option"
  debug :: bool
  prompt :: string
  yolo :: bool
  approvalMode :: string
  telemetry :: bool
  openaiLogging :: bool
  openaiApiKey :: "string option"
  openaiBaseUrl :: "string option"
  openaiLoggingDir :: string
  outputFormat :: string
  authType :: string

definition mockArgs :: "string list \<Rightarrow> environ \<Rightarrow> string \<Rightarrow> CliArgs" where
  "mockArgs args e prompt_text =
     (let openaiApiKey_v = js_or (getArgValue args ''--openai-api-key'') (getenv e ''OPENAI_API_KEY'');
          openaiBaseUrl_v = js_or (getArgValue args ''--openai-base-url'') (getenv e ''OPENAI_BASE_URL'');
          modelName = getArgValue args ''--model''
      in \<lparr> model = modelName,
           debug = True,
           prompt = prompt_text,
           yolo = True,
           approvalMode = ''yolo'',
           telemetry = False,
           openaiLogging = True,
           openaiApiKey = openaiApiKey_v,
           openaiBaseUrl = openaiBaseUrl_v,
           openaiLoggingDir = ''/tmp/qwen-logs'',
           outputFormat = ''stream-json'',
           authType = ''openai'' \<rparr>)"

subsection \<open>External collaborators\<close>

text \<open>
  The functions and constants the bridge imports are not part of it. Each is a
  parameter: a function, given the environment and the state of the engine, returns or
  throws, may write to the two output streams, and may change the environment and the
  engine.
\<close>

record 'x ext_result =
  thrown :: "js_value option"
  written :: string
  written_err :: string
  env_after :: environ
  engine_after :: 'x

type_synonym 'x external = "environ \<Rightarrow> 'x \<Rightarrow> 'x ext_result"

record 'x externals =
  loadSettings :: "string \<Rightarrow> 'x external"
  getUserExtensionsDir :: "'x external"
  newExtensionEnablementManager :: "'x external"
  loadCliConfig :: "CliArgs \<Rightarrow> string \<Rightarrow> 'x external"
  initialize :: "'x external"
  AuthType_USE_OPENAI :: string
  refreshAuth :: "string \<Rightarrow> bool \<Rightarrow> 'x external"
  registerTool :: "string \<Rightarrow> 'x external"
  uuidv4 :: "'x \<Rightarrow> string"
  createMinimalSettings :: "'x external"
  runNonInteractive :: "string \<Rightarrow> string \<Rightarrow> 'x external"
  inspect :: "js_value \<Rightarrow> string"

text \<open>A step returns \<open>None\<close> when it completes and \<open>Some e\<close> when it throws \<open>e\<close>.\<close>

type_synonym 'x outcome = "js_value option \<times> 'x process"

definition call :: "string \<Rightarrow> 'x external \<Rightarrow> 'x process \<Rightarrow> 'x outcome" where
  "call name f p =
     (let r = f (env p) (engine p)
      in (thrown r,
          p\<lparr> env := env_after r, engine := engine_after r,
             actions := actions p @ [Call name, Print (written r), PrintErr (written_err r)] \<rparr>))"

definition and_then :: "'x outcome \<Rightarrow> ('x process \<Rightarrow> 'x outcome) \<Rightarrow> 'x outcome" where
  "and_then r f = (case r of (None, p) \<Rightarrow> f p | (Some e, p) \<Rightarrow> (Some e, p))"

definition ReportStatusTool_Name :: string where
  "ReportStatusTool_Name = ''report_status''"

subsection \<open>\<open>main\<close>\<close>

text \<open>Lines 29 to 31 of the bridge: the two telemetry variables are forced.\<close>

definition disable_telemetry :: "'x process \<Rightarrow> 'x process" where
  "disable_telemetry p0 =
     (let p = set_env ''QWEN_DISABLE_TELEMETRY'' ''true'' p0
      in set_env ''QWEN_CODE_TELEMETRY_DISABLED'' ''1'' p)"

text \<open>
  Lines 39 to 126 of the bridge: from \<open>loadSettings\<close> to the message that the loop
  starts.
\<close>

definition configure :: "'x externals \<Rightarrow> string \<Rightarrow> 'x process \<Rightarrow> 'x outcome" where
  "configure X prompt_text p0 =
     and_then (call ''loadSettings'' (loadSettings X (cwd p0)) p0) (\<lambda>p.
     and_then (call ''getUserExtensionsDir'' (getUserExtensionsDir X) p) (\<lambda>p.
     and_then (call ''ExtensionEnablementManager'' (newExtensionEnablementManager X) p) (\<lambda>p.
       (let p = log_action ArgvRead p;
            args = mockArgs (argv p) (env p) prompt_text;
            p = console_log (''[bridge] Config: model='' @ template (model args)
                  @ '', base_url='' @ template (map_option (take 30) (openaiBaseUrl args))
                  @ ''...'') p
        in
     and_then (call ''loadCliConfig'' (loadCliConfig X args (cwd p)) p) (\<lambda>p.
     and_then (call ''initialize'' (initialize X) p) (\<lambda>p.
     and_then (call ''refreshAuth'' (refreshAuth X (AuthType_USE_OPENAI X) True) p) (\<lambda>p.
     and_then (call ''registerTool'' (registerTool X ReportStatusTool_Name) p) (\<lambda>p.
       (None, console_log ''[bridge] Starting native CLI loop...'' p)))))))))"

text \<open>The body of the \<open>try\<close> block up to the end of the awaited run.\<close>

definition attempt :: "'x externals \<Rightarrow> string \<Rightarrow> string \<Rightarrow> 'x process \<Rightarrow> 'x outcome" where
  "attempt X prompt_text promptId p0 =
     (let p = set_env ''QWEN_DISABLE_TELEMETRY'' ''true'' p0
      in and_then (call ''createMinimalSettings'' (createMinimalSettings X) p) (\<lambda>p.
         call ''runNonInteractive'' (runNonInteractive X prompt_text promptId) p))"

definition SUCCESS_MARKER :: string where
  \<open>SUCCESS_MARKER =
     ''__ONEAGENT_RESULT__:{"status":"success","result":"Task completed successfully via native CLI."}''\<close>

definition FAILURE_MARKER :: "js_value \<Rightarrow> string" where
  \<open>FAILURE_MARKER e =
     ''__ONEAGENT_RESULT__:{"status":"failure","result":"Bridge Exception: '' @ String_js e @ ''"}''\<close>

definition main :: "'x externals \<Rightarrow> 'x process \<Rightarrow> ending \<times> 'x process" where
  "main X p0 =
     (let p = disable_telemetry p0;
          p = log_action ArgvRead p;
          prompt_arg = array_at (argv p) 2
      in if \<not> truthy prompt_arg
         then process_exit 1 (console_error ''Usage: node oneagent-bridge.js <prompt>'' p)
         else
           (case configure X (the prompt_arg) p of
              (Some e, p) \<Rightarrow> (Rejected e, p)
            | (None, p) \<Rightarrow>
                (let promptId = uuidv4 X (engine p);
                     p = log_action (Call ''uuidv4'') p
                 in case attempt X (the prompt_arg) promptId p of
                      (None, p) \<Rightarrow> process_exit 0 (console_log SUCCESS_MARKER p)
                    | (Some e, p) \<Rightarrow>
                        process_exit 1
                          (console_log (FAILURE_MARKER e)
                             (console_error (''Bridge Error: '' @ inspect X e) p)))))"

subsection \<open>Sample collaborators\<close>

text \<open>
  Collaborators on which the model runs on concrete inputs: one that does nothing, one
  that writes a line of output, one that throws.
\<close>

definition silent :: "unit external" where
  "silent e x = \<lparr> thrown = None, written = [], written_err = [], env_after = e, engine_after = x \<rparr>"

definition chatty :: "string \<Rightarrow> unit external" where
  "chatty s e x = \<lparr> thrown = None, written = s, written_err = [], env_after = e, engine_after = x \<rparr>"

definition throwing :: "js_value \<Rightarrow> unit external" where
  "throwing v e x = \<lparr> thrown = Some v, written = [], written_err = [], env_after = e, engine_after = x \<rparr>"

definition sample_externals :: "unit external \<Rightarrow> unit externals" where
  "sample_externals run =
     \<lparr> loadSettings = (\<lambda>dir. silent),
       getUserExtensionsDir = silent,
       newExtensionEnablementManager = silent,
       loadCliConfig = (\<lambda>args dir. silent),
       initialize = silent,
       AuthType_USE_OPENAI = ''openai'',
       refreshAuth = (\<lambda>kind flag. silent),
       registerTool = (\<lambda>name. silent),
       uuidv4 = (\<lambda>x. ''6f1c''),
       createMinimalSettings = silent,
       runNonInteractive = (\<lambda>prompt_text promptId. run),
       inspect = String_js \<rparr>"

definition sample_process :: "string list \<Rightarrow> environ \<Rightarrow> unit process" where
  "sample_process args e = \<lparr> argv = args, env = e, cwd = ''/work'', engine = (), actions = [] \<rparr>"

section \<open>Notions of the specification\<close>

subsection \<open>Lines of standard output and the marker line\<close>

text \<open>
  The lines of a text, split at line feeds; a last line without its line feed counts.
  A marker line is the fixed prefix with one of the two statuses, a text, and the closing
  quote and brace.
\<close>

fun lines_from :: "string \<Rightarrow> string \<Rightarrow> string list" where
  "lines_from cur [] = (if cur = [] then [] else [cur])"
| "lines_from cur (c # cs) =
     (if c = CHR 0x0A then cur # lines_from [] cs else lines_from (cur @ [c]) cs)"

definition lines_of :: "string \<Rightarrow> string list" where
  "lines_of s = lines_from [] s"

definition last_line :: "string \<Rightarrow> string option" where
  "last_line s = (case lines_of s of [] \<Rightarrow> None | l # ls \<Rightarrow> Some (last (l # ls)))"

definition after_prefix :: "string \<Rightarrow> string \<Rightarrow> string option" where
  "after_prefix p s = (if prefix p s then Some (drop (length p) s) else None)"

definition is_marker_line :: "string \<Rightarrow> bool" where
  \<open>is_marker_line l =
     (case after_prefix ''__ONEAGENT_RESULT__:{"status":"success","result":"'' l of
        Some t \<Rightarrow> suffix ''"}'' t
      | None \<Rightarrow>
         (case after_prefix ''__ONEAGENT_RESULT__:{"status":"failure","result":"'' l of
            Some t \<Rightarrow> suffix ''"}'' t
          | None \<Rightarrow> False))\<close>

subsection \<open>The populated fields of a record and their lines\<close>

text \<open>
  The rendering that the specification describes: the fields of a record with their
  labels, status first and the payload fields after it; the populated ones, that is
  those that are present and not empty; and one text \<open>Label: value\<close> for each.
\<close>

definition display_fields :: "NormalizedReportStatusParams \<Rightarrow> (string \<times> string option) list" where
  "display_fields r =
     [(''Status'', Some (status r)),
      (''Result'', Some (result r)),
      (''Reason'', reason r),
      (''Mismatch Detail'', mismatch_detail r)]"

definition display_fields_msg :: "NormalizedReportStatusParams_msg \<Rightarrow> (string \<times> string option) list" where
  "display_fields_msg r =
     [(''Status'', Some (status_msg r)),
      (''Result'', Some (message r))]"

fun populated :: "(string \<times> string option) list \<Rightarrow> (string \<times> string) list" where
  "populated [] = []"
| "populated ((l, None) # fs) = populated fs"
| "populated ((l, Some v) # fs) = (if v = [] then populated fs else (l, v) # populated fs)"

definition render_line :: "string \<times> string \<Rightarrow> string" where
  "render_line f = fst f @ '': '' @ snd f"

definition single_line :: "string \<Rightarrow> bool" where
  "single_line s = (CHR 0x0A \<notin> set s)"

subsection \<open>Reading a quoted string back\<close>

text \<open>
  A reader for the body of a JSON string: it decodes the escapes up to the closing
  quote and returns the decoded text with the rest of the input. It serves to state that
  the serialization loses nothing.
\<close>

definition hex_val :: "char \<Rightarrow> nat option" where
  "hex_val c =
     (let n = (of_char c :: nat)
      in if 48 \<le> n \<and> n \<le> 57 then Some (n - 48)
         else if 97 \<le> n \<and> n \<le> 102 then Some (n - 87)
         else if 65 \<le> n \<and> n \<le> 70 then Some (n - 55)
         else None)"

definition unescape :: "char \<Rightarrow> char option" where
  "unescape e =
     (if e = CHR ''b'' then Some (CHR 0x08)
      else if e = CHR ''t'' then Some (CHR 0x09)
      else if e = CHR ''n'' then Some (CHR 0x0A)
      else if e = CHR ''f'' then Some (CHR 0x0C)
      else if e = CHR ''r'' then Some (CHR 0x0D)
      else if e = CHR 0x22 \<or> e = CHR 0x5C \<or> e = CHR ''/'' then Some e
      else None)"

definition unicode_escape :: "char \<Rightarrow> char \<Rightarrow> char \<Rightarrow> char \<Rightarrow> char option" where
  "unicode_escape a b c d =
     (case (hex_val a, hex_val b, hex_val c, hex_val d) of
        (Some x, Some y, Some z, Some w) \<Rightarrow>
          (let v = ((x * 16 + y) * 16 + z) * 16 + w
           in if v < 256 then Some (char_of v) else None)
      | _ \<Rightarrow> None)"

fun push :: "char option \<Rightarrow> (string \<times> string) option \<Rightarrow> (string \<times> string) option" where
  "push (Some c) (Some (s, rest)) = Some (c # s, rest)"
| "push _ _ = None"

fun unquote :: "string \<Rightarrow> (string \<times> string) option" where
  "unquote [] = None"
| "unquote [c] = (if c = CHR 0x22 then Some ([], []) else None)"
| "unquote [c, e] =
     (if c = CHR 0x22 then Some ([], [e])
      else if c = CHR 0x5C then None
      else push (Some c) (unquote [e]))"
| "unquote (c # e # x # xs) =
     (if c = CHR 0x22 then Some ([], e # x # xs)
      else if c = CHR 0x5C then
        (if e = CHR ''u'' then
           (case xs of
              b1 # b2 # b3 # rest \<Rightarrow> push (unicode_escape x b1 b2 b3) (unquote rest)
            | _ \<Rightarrow> None)
         else push (unescape e) (unquote (x # xs)))
      else push (Some c) (unquote (e # x # xs)))"

subsection \<open>Reading a serialized record back\<close>

text \<open>
  A reader for the text that \<open>JSON.stringify\<close> writes for a record of the status tool:
  the opening brace, the two required fields, each optional field when its key comes
  next, and the closing brace.
\<close>

definition read_field :: "string \<Rightarrow> string \<Rightarrow> (string \<times> string) option" where
  "read_field k s =
     (case after_prefix (QuoteJSONString k @ '':'' @ [CHR 0x22]) s of
        None \<Rightarrow> None
      | Some t \<Rightarrow> unquote t)"

definition read_optional :: "string \<Rightarrow> string \<Rightarrow> string option \<times> string" where
  "read_optional k s =
     (case after_prefix '','' s of
        None \<Rightarrow> (None, s)
      | Some t \<Rightarrow> (case read_field k t of None \<Rightarrow> (None, s) | Some (v, t') \<Rightarrow> (Some v, t')))"

definition parse_params :: "string \<Rightarrow> ReportStatusParams option" where
  "parse_params s =
     (case after_prefix ''{'' s of
        None \<Rightarrow> None
      | Some s1 \<Rightarrow>
     (case read_field ''status'' s1 of
        None \<Rightarrow> None
      | Some (st, s2) \<Rightarrow>
     (case after_prefix '','' s2 of
        None \<Rightarrow> None
      | Some s3 \<Rightarrow>
     (case read_field ''result'' s3 of
        None \<Rightarrow> None
      | Some (re, s4) \<Rightarrow>
          (let (rs, s5) = read_optional ''reason'' s4;
               (mm, s6) = read_optional ''mismatch_detail'' s5
           in if s6 = ''}''
              then Some \<lparr> status = st, result = re, reason = rs, mismatch_detail = mm \<rparr>
              else None)))))"

definition parse_params_msg :: "string \<Rightarrow> ReportStatusParams_msg option" where
  "parse_params_msg s =
     (case after_prefix ''{'' s of
        None \<Rightarrow> None
      | Some s1 \<Rightarrow>
     (case read_field ''status'' s1 of
        None \<Rightarrow> None
      | Some (st, s2) \<Rightarrow>
     (case after_prefix '','' s2 of
        None \<Rightarrow> None
      | Some s3 \<Rightarrow>
     (case read_field ''message'' s3 of
        None \<Rightarrow> None
      | Some (me, s4) \<Rightarrow>
          (if s4 = ''}'' then Some \<lparr> status_msg = st, message = me \<rparr> else None)))))"

subsection \<open>The argument after a flag\<close>

text \<open>
  \<open>following f args\<close>: the argument that comes right after the first occurrence of the
  flag \<open>f\<close> on the command line, if the flag occurs and is not the last argument.
\<close>

fun following :: "string \<Rightarrow> string list \<Rightarrow> string option" where
  "following f [] = None"
| "following f [x] = None"
| "following f (x # y # zs) = (if x = f then Some y else following f (y # zs))"

subsection \<open>Executing a record several times\<close>

text \<open>
  The reporting action executed once for each signal of a list, one execution after the
  other, each in the process that the one before it left: the results in order, and the
  process after the last execution.
\<close>

fun execute_repeatedly ::
  "NormalizedReportStatusParams \<Rightarrow> AbortSignal list \<Rightarrow> 'x process \<Rightarrow> ToolResult list \<times> 'x process" where
  "execute_repeatedly r [] p = ([], p)"
| "execute_repeatedly r (s # ss) p =
     (case execute r s p of (res, p1) \<Rightarrow>
        (case execute_repeatedly r ss p1 of (rest, p2) \<Rightarrow> (res # rest, p2)))"

fun execute_repeatedly_msg ::
  "NormalizedReportStatusParams_msg \<Rightarrow> AbortSignal list \<Rightarrow> 'x process \<Rightarrow> ToolResult list \<times> 'x process" where
  "execute_repeatedly_msg r [] p = ([], p)"
| "execute_repeatedly_msg r (s # ss) p =
     (case execute_msg r s p of (res, p1) \<Rightarrow>
        (case execute_repeatedly_msg r ss p1 of (rest, p2) \<Rightarrow> (res # rest, p2)))"


section \<open>Lowercasing\<close>

lemma toLowerCase_char_idem: "toLowerCase_char (toLowerCase_char c) = toLowerCase_char c"
  unfolding toLowerCase_char_def Let_def by auto

lemma toLowerCase_idem: "toLowerCase (toLowerCase s) = toLowerCase s"
  by (simp add: toLowerCase_def toLowerCase_char_idem)

lemma toLowerCase_Nil_iff: "toLowerCase s = [] \<longleftrightarrow> s = []"
  by (simp add: toLowerCase_def)

lemma toLowerCase_char_variant:
  assumes "ascii_lower d"
  shows "toLowerCase_char c = d \<longleftrightarrow> c = d \<or> (of_char c :: nat) + 32 = of_char d"
proof -
  have d: "97 \<le> (of_char d :: nat)" "(of_char d :: nat) \<le> 122"
    using assms by (simp_all add: ascii_lower_def)
  have c: "(of_char c :: nat) < 256" by simp
  show ?thesis
  proof (cases "(65 \<le> (of_char c :: nat) \<and> (of_char c :: nat) \<le> 90)
      \<or> (192 \<le> (of_char c :: nat) \<and> (of_char c :: nat) \<le> 222 \<and> (of_char c :: nat) \<noteq> 215)")
    case True
    then have "toLowerCase_char c = char_of ((of_char c :: nat) + 32)"
      by (simp add: toLowerCase_char_def Let_def)
    moreover have "char_of ((of_char c :: nat) + 32) = d \<longleftrightarrow> (of_char c :: nat) + 32 = of_char d"
      using True c by (auto simp: char_of_eq_iff take_bit_eq_mod)
    moreover have "c \<noteq> d" using True d by auto
    ultimately show ?thesis by simp
  next
    case False
    then have "toLowerCase_char c = c"
      by (auto simp: toLowerCase_char_def Let_def)
    moreover have "(of_char c :: nat) + 32 \<noteq> of_char d" using False d by auto
    ultimately show ?thesis by simp
  qed
qed

lemma toLowerCase_case_variant:
  "list_all ascii_lower t \<Longrightarrow> toLowerCase s = t \<longleftrightarrow> case_variant s t"
proof (induction s t rule: case_variant.induct)
  case (2 c cs d ds)
  then show ?case
    using toLowerCase_char_variant [of d c] by (auto simp: toLowerCase_def)
qed (simp_all add: toLowerCase_def)

lemma VALID_STATUSES_lower: "t \<in> set VALID_STATUSES \<Longrightarrow> list_all ascii_lower t"
  by (auto simp: VALID_STATUSES_def ascii_lower_def)

lemma set_VALID_STATUSES:
  "set VALID_STATUSES = {''success'', ''failure'', ''rejected'', ''interrupted''}"
  by (simp add: VALID_STATUSES_def)

lemma validate_None_iff:
  "validateToolParamValues p = None \<longleftrightarrow>
     status p \<noteq> [] \<and> result p \<noteq> [] \<and> toLowerCase (status p) \<in> set VALID_STATUSES"
  by (simp add: validateToolParamValues_def falsy_def array_includes_def Let_def)

lemma validate_msg_None_iff:
  "validateToolParamValues_msg q = None \<longleftrightarrow>
     status_msg q \<noteq> [] \<and> message q \<noteq> [] \<and> toLowerCase (status_msg q) \<in> set VALID_STATUSES"
  by (simp add: validateToolParamValues_msg_def falsy_def array_includes_def Let_def)

text \<open>The three error texts, each in its own case.\<close>

lemma validation_messages:
  \<open>status p = [] \<Longrightarrow> validateToolParamValues p = Some ''status is required''\<close>
  \<open>status p \<noteq> [] \<Longrightarrow> result p = [] \<Longrightarrow> validateToolParamValues p = Some ''result is required''\<close>
  \<open>status p \<noteq> [] \<Longrightarrow> result p \<noteq> [] \<Longrightarrow> toLowerCase (status p) \<notin> set VALID_STATUSES \<Longrightarrow>
     validateToolParamValues p = Some (''Invalid status "'' @ status p
       @ ''". Must be one of: success, failure, rejected, interrupted (case-insensitive)'')\<close>
  \<open>status_msg q = [] \<Longrightarrow> validateToolParamValues_msg q = Some ''status is required''\<close>
  \<open>status_msg q \<noteq> [] \<Longrightarrow> message q = [] \<Longrightarrow> validateToolParamValues_msg q = Some ''message is required''\<close>
  \<open>status_msg q \<noteq> [] \<Longrightarrow> message q \<noteq> [] \<Longrightarrow> toLowerCase (status_msg q) \<notin> set VALID_STATUSES \<Longrightarrow>
     validateToolParamValues_msg q = Some (''Invalid status "'' @ status_msg q
       @ ''". Must be one of: success, failure, rejected, interrupted (case-insensitive)'')\<close>
  by (simp_all add: validateToolParamValues_def validateToolParamValues_msg_def falsy_def
        array_includes_def Let_def, simp_all add: VALID_STATUSES_def)

text \<open>
  C1. Validation returns an error text, and no record is built, exactly when the status
  is empty, the payload text (\<open>result\<close>, or \<open>message\<close> in the other variant) is empty, or
  the lowercased status is none of success, failure, rejected, interrupted. In every
  other case it returns \<open>null\<close> and the record is built.
\<close>

theorem validation_error_iff:
  fixes p :: ReportStatusParams and q :: ReportStatusParams_msg
  shows "(if status p = [] \<or> result p = [] \<or>
             toLowerCase (status p) \<notin> {''success'', ''failure'', ''rejected'', ''interrupted''}
          then \<exists>e. e \<noteq> [] \<and> validateToolParamValues p = Some e \<and> build p = Inl e
          else validateToolParamValues p = None \<and> build p = Inr (createInvocation p))
       \<and> (if status_msg q = [] \<or> message q = [] \<or>
             toLowerCase (status_msg q) \<notin> {''success'', ''failure'', ''rejected'', ''interrupted''}
          then \<exists>e. e \<noteq> [] \<and> validateToolParamValues_msg q = Some e \<and> build_msg q = Inl e
          else validateToolParamValues_msg q = None \<and> build_msg q = Inr (createInvocation_msg q))"
  by (simp add: validateToolParamValues_def validateToolParamValues_msg_def build_def build_msg_def
        falsy_def array_includes_def set_VALID_STATUSES Let_def)

theorem validation_error_iff_witness:
  "(\<exists>e. e \<noteq> [] \<and>
        validateToolParamValues
          \<lparr>status = ''Bogus'', result = ''x'', reason = None, mismatch_detail = None\<rparr> = Some e \<and>
        build \<lparr>status = ''Bogus'', result = ''x'', reason = None, mismatch_detail = None\<rparr> = Inl e)
   \<and> validateToolParamValues_msg \<lparr>status_msg = ''SUCCESS'', message = ''done''\<rparr> = None
   \<and> build_msg \<lparr>status_msg = ''SUCCESS'', message = ''done''\<rparr>
       = Inr (createInvocation_msg \<lparr>status_msg = ''SUCCESS'', message = ''done''\<rparr>)"
  using validation_error_iff
    [of "\<lparr>status = ''Bogus'', result = ''x'', reason = None, mismatch_detail = None\<rparr>"
        "\<lparr>status_msg = ''SUCCESS'', message = ''done''\<rparr>"]
  by (simp add: toLowerCase_def toLowerCase_char_def char_of_eq_iff)

text \<open>
  C2. For an input that validation accepts, the record built by \<open>createInvocation\<close> has
  as status the lowercased status, which is one of the four tokens and of which the
  supplied status is a case variant; the payload fields are the supplied ones, character
  for character. Every case variant of a token is normalized to that token.
\<close>

theorem normalization_lowercase_verbatim:
  fixes p :: ReportStatusParams and q :: ReportStatusParams_msg
  shows "(validateToolParamValues p = None \<longrightarrow>
            status (createInvocation p) = toLowerCase (status p)
          \<and> status (createInvocation p) \<in> {''success'', ''failure'', ''rejected'', ''interrupted''}
          \<and> case_variant (status p) (status (createInvocation p))
          \<and> result (createInvocation p) = result p
          \<and> reason (createInvocation p) = reason p
          \<and> mismatch_detail (createInvocation p) = mismatch_detail p)
       \<and> (validateToolParamValues_msg q = None \<longrightarrow>
            status_msg (createInvocation_msg q) = toLowerCase (status_msg q)
          \<and> status_msg (createInvocation_msg q) \<in> {''success'', ''failure'', ''rejected'', ''interrupted''}
          \<and> case_variant (status_msg q) (status_msg (createInvocation_msg q))
          \<and> message (createInvocation_msg q) = message q)
       \<and> (t \<in> {''success'', ''failure'', ''rejected'', ''interrupted''} \<and> case_variant s t \<longrightarrow>
            status (createInvocation (p\<lparr>status := s\<rparr>)) = t
          \<and> status_msg (createInvocation_msg (q\<lparr>status_msg := s\<rparr>)) = t)"
proof -
  have v: "toLowerCase x \<in> set VALID_STATUSES \<Longrightarrow> case_variant x (toLowerCase x)" for x
    using toLowerCase_case_variant [OF VALID_STATUSES_lower, of "toLowerCase x" x] by simp
  have w: "t \<in> set VALID_STATUSES \<Longrightarrow> case_variant s t \<Longrightarrow> toLowerCase s = t"
    using toLowerCase_case_variant [OF VALID_STATUSES_lower, of t s] by simp
  show ?thesis
    using v [of "status p"] v [of "status_msg q"] w
    by (simp add: validate_None_iff validate_msg_None_iff createInvocation_def
          createInvocation_msg_def set_VALID_STATUSES [symmetric])
qed

theorem normalization_lowercase_verbatim_witness:
  "status (createInvocation \<lparr>status = ''SUCCESS'', result = ''  two  spaces  '', reason = Some '''', mismatch_detail = None\<rparr>) = ''success''
   \<and> result (createInvocation \<lparr>status = ''SUCCESS'', result = ''  two  spaces  '', reason = Some '''', mismatch_detail = None\<rparr>) = ''  two  spaces  ''
   \<and> reason (createInvocation \<lparr>status = ''SUCCESS'', result = ''  two  spaces  '', reason = Some '''', mismatch_detail = None\<rparr>) = Some ''''
   \<and> status_msg (createInvocation_msg \<lparr>status_msg = ''Success'', message = ''done ''\<rparr>) = ''success''
   \<and> message (createInvocation_msg \<lparr>status_msg = ''Success'', message = ''done ''\<rparr>) = ''done ''
   \<and> status (createInvocation \<lparr>status = ''InterRupted'', result = ''  two  spaces  '', reason = Some '''', mismatch_detail = None\<rparr>) = ''interrupted''"
proof -
  have a: "validateToolParamValues \<lparr>status = ''SUCCESS'', result = ''  two  spaces  '', reason = Some '''', mismatch_detail = None\<rparr> = None"
    by (simp add: validate_None_iff VALID_STATUSES_def toLowerCase_def toLowerCase_char_def char_of_eq_iff)
  have b: "validateToolParamValues_msg \<lparr>status_msg = ''Success'', message = ''done ''\<rparr> = None"
    by (simp add: validate_msg_None_iff VALID_STATUSES_def toLowerCase_def toLowerCase_char_def char_of_eq_iff)
  have c: "case_variant ''InterRupted'' ''interrupted''"
    by (simp add: ascii_lower_def)
  show ?thesis
    using a b c normalization_lowercase_verbatim
      [of "\<lparr>status = ''SUCCESS'', result = ''  two  spaces  '', reason = Some '''', mismatch_detail = None\<rparr>"
          "\<lparr>status_msg = ''Success'', message = ''done ''\<rparr>" "''interrupted''" "''InterRupted''"]
    by (simp add: toLowerCase_def toLowerCase_char_def char_of_eq_iff)
qed

text \<open>
  C9. Normalization is stable: the record built from an accepted input passes validation
  again and is normalized to itself, and lowercasing twice is lowercasing once.
\<close>

theorem normalization_stable:
  fixes p :: ReportStatusParams and q :: ReportStatusParams_msg
  shows "(validateToolParamValues p = None \<longrightarrow>
            validateToolParamValues (createInvocation p) = None
          \<and> createInvocation (createInvocation p) = createInvocation p)
       \<and> (validateToolParamValues_msg q = None \<longrightarrow>
            validateToolParamValues_msg (createInvocation_msg q) = None
          \<and> createInvocation_msg (createInvocation_msg q) = createInvocation_msg q)
       \<and> toLowerCase (toLowerCase s) = toLowerCase s"
  by (simp add: validate_None_iff validate_msg_None_iff createInvocation_def
        createInvocation_msg_def toLowerCase_idem toLowerCase_Nil_iff)

theorem normalization_stable_witness:
  "validateToolParamValues (createInvocation \<lparr>status = ''Failure'', result = ''no'', reason = Some ''io'', mismatch_detail = None\<rparr>) = None
   \<and> createInvocation (createInvocation \<lparr>status = ''Failure'', result = ''no'', reason = Some ''io'', mismatch_detail = None\<rparr>)
       = createInvocation \<lparr>status = ''Failure'', result = ''no'', reason = Some ''io'', mismatch_detail = None\<rparr>
   \<and> validateToolParamValues_msg (createInvocation_msg \<lparr>status_msg = ''REJECTED'', message = ''no''\<rparr>) = None
   \<and> createInvocation_msg (createInvocation_msg \<lparr>status_msg = ''REJECTED'', message = ''no''\<rparr>)
       = createInvocation_msg \<lparr>status_msg = ''REJECTED'', message = ''no''\<rparr>
   \<and> toLowerCase (toLowerCase ''SuCCess'') = toLowerCase ''SuCCess''"
proof -
  have a: "validateToolParamValues \<lparr>status = ''Failure'', result = ''no'', reason = Some ''io'', mismatch_detail = None\<rparr> = None"
    by (simp add: validate_None_iff VALID_STATUSES_def toLowerCase_def toLowerCase_char_def char_of_eq_iff)
  have b: "validateToolParamValues_msg \<lparr>status_msg = ''REJECTED'', message = ''no''\<rparr> = None"
    by (simp add: validate_msg_None_iff VALID_STATUSES_def toLowerCase_def toLowerCase_char_def char_of_eq_iff)
  show ?thesis
    using a b normalization_stable
      [of "\<lparr>status = ''Failure'', result = ''no'', reason = Some ''io'', mismatch_detail = None\<rparr>"
          "\<lparr>status_msg = ''REJECTED'', message = ''no''\<rparr>" "''SuCCess''"]
    by simp
qed


section \<open>Reading back what \<open>QuoteJSONString\<close> writes\<close>

lemma unquote_quote: "unquote (CHR 0x22 # t) = Some ([], t)"
proof (cases t)
  case Nil
  then show ?thesis by simp
next
  case (Cons e t')
  then show ?thesis by (cases t') simp_all
qed

lemma unquote_plain:
  assumes "c \<noteq> CHR 0x22" "c \<noteq> CHR 0x5C"
  shows "unquote (c # t) = push (Some c) (unquote t)"
proof (cases t)
  case Nil
  with assms show ?thesis by simp
next
  case (Cons e t')
  with assms show ?thesis by (cases t') simp_all
qed

lemma unquote_escape:
  "e \<noteq> CHR ''u'' \<Longrightarrow> unquote (CHR 0x5C # e # t) = push (unescape e) (unquote t)"
  by (cases t) simp_all

lemma hex_val_hex_digit: "k < 16 \<Longrightarrow> hex_val (hex_digit k) = Some k"
proof -
  assume "k < 16"
  then consider "k = 0" | "k = 1" | "k = 2" | "k = 3" | "k = 4" | "k = 5" | "k = 6" | "k = 7"
    | "k = 8" | "k = 9" | "k = 10" | "k = 11" | "k = 12" | "k = 13" | "k = 14" | "k = 15"
    by atomize_elim arith
  then show ?thesis
    by cases (simp_all add: hex_digit_def hex_val_def)
qed

lemma char_of_lits:
  "char_of (8::nat) = CHR 0x08" "char_of (9::nat) = CHR 0x09" "char_of (10::nat) = CHR 0x0A"
  "char_of (12::nat) = CHR 0x0C" "char_of (13::nat) = CHR 0x0D" "char_of (34::nat) = CHR 0x22"
  "char_of (92::nat) = CHR 0x5C"
  by (simp_all add: char_of_eq_iff)

lemma unquote_quote_char: "unquote (quote_char c @ t) = push (Some c) (unquote t)"
proof -
  define n where "n = (of_char c :: nat)"
  have n: "n < 256" by (simp add: n_def)
  have c: "c = char_of n" by (simp add: n_def)
  consider "n = 8" | "n = 9" | "n = 10" | "n = 12" | "n = 13" | "n = 34" | "n = 92"
    | "n < 32" "n \<noteq> 8" "n \<noteq> 9" "n \<noteq> 10" "n \<noteq> 12" "n \<noteq> 13"
    | "32 \<le> n" "n \<noteq> 34" "n \<noteq> 92"
    by linarith
  then show ?thesis
  proof cases
    case 8
    have q: "quote_char c = [CHR 0x5C, CHR ''u'', CHR ''0'', CHR ''0'', hex_digit (n div 16), hex_digit (n mod 16)]"
      using 8 by (simp add: quote_char_def n_def [symmetric] Let_def)
    have "n div 16 < 16" using 8 by simp
    then have h1: "hex_val (hex_digit (n div 16)) = Some (n div 16)" by (rule hex_val_hex_digit)
    have h2: "hex_val (hex_digit (n mod 16)) = Some (n mod 16)" by (rule hex_val_hex_digit) simp
    have h0: "hex_val (CHR ''0'') = Some 0" by (simp add: hex_val_def)
    have "unicode_escape (CHR ''0'') (CHR ''0'') (hex_digit (n div 16)) (hex_digit (n mod 16)) = Some c"
      using n by (simp add: unicode_escape_def h0 h1 h2 c)
    then show ?thesis by (simp add: q)
  next
    case 9
    then have "c \<noteq> CHR 0x22" "c \<noteq> CHR 0x5C" "quote_char c = [c]"
      by (auto simp: quote_char_def n_def Let_def)
    then show ?thesis by (simp add: unquote_plain)
  qed (simp_all add: quote_char_def n_def [symmetric] Let_def c char_of_lits unquote_escape unescape_def)
qed

lemma unquote_body: "unquote (concat (map quote_char s) @ CHR 0x22 # rest) = Some (s, rest)"
  by (induction s) (simp_all add: unquote_quote unquote_quote_char)

section \<open>The two outputs of \<open>execute\<close>\<close>

lemma quoted_keys:
  \<open>QuoteJSONString ''status'' = ''"status"''\<close>
  \<open>QuoteJSONString ''result'' = ''"result"''\<close>
  \<open>QuoteJSONString ''reason'' = ''"reason"''\<close>
  \<open>QuoteJSONString ''mismatch_detail'' = ''"mismatch_detail"''\<close>
  \<open>QuoteJSONString ''message'' = ''"message"''\<close>
  by (simp_all add: QuoteJSONString_def quote_char_def)

lemma json_text:
  \<open>JSON_stringify (own_properties r) =
     ''{"status":'' @ QuoteJSONString (status r) @ '',"result":'' @ QuoteJSONString (result r)
     @ (case reason r of None \<Rightarrow> [] | Some x \<Rightarrow> '',"reason":'' @ QuoteJSONString x)
     @ (case mismatch_detail r of None \<Rightarrow> [] | Some x \<Rightarrow> '',"mismatch_detail":'' @ QuoteJSONString x)
     @ ''}''\<close>
  by (cases "reason r"; cases "mismatch_detail r")
     (simp_all add: JSON_stringify_def own_properties_def quoted_keys)

lemma json_text_msg:
  \<open>JSON_stringify (own_properties_msg m) =
     ''{"status":'' @ QuoteJSONString (status_msg m) @ '',"message":'' @ QuoteJSONString (message m)
     @ ''}''\<close>
  by (simp add: JSON_stringify_def own_properties_msg_def quoted_keys)

lemma after_prefix_append: "after_prefix p (p @ s) = Some s"
  by (simp add: after_prefix_def)

lemma read_field_quoted:
  "read_field k (QuoteJSONString k @ '':'' @ QuoteJSONString v @ rest) = Some (v, rest)"
proof -
  have "QuoteJSONString k @ '':'' @ QuoteJSONString v @ rest
      = (QuoteJSONString k @ '':'' @ [CHR 0x22]) @ (concat (map quote_char v) @ CHR 0x22 # rest)"
    by (simp add: QuoteJSONString_def)
  then show ?thesis
    by (simp only: read_field_def after_prefix_append option.case unquote_body)
qed

lemma read_optional_present:
  "read_optional k ('','' @ QuoteJSONString k @ '':'' @ QuoteJSONString v @ rest) = (Some v, rest)"
  by (simp only: read_optional_def after_prefix_append option.case read_field_quoted prod.case)

lemma read_optional_end: "read_optional k ''}'' = (None, ''}'')"
  by (simp add: read_optional_def after_prefix_def)

lemma read_optional_other:
  "read_optional ''reason'' ('','' @ QuoteJSONString ''mismatch_detail'' @ rest)
     = (None, '','' @ QuoteJSONString ''mismatch_detail'' @ rest)"
  by (simp add: read_optional_def read_field_def after_prefix_def quoted_keys)

lemma parse_json:
  "parse_params (JSON_stringify (own_properties r)) = Some r"
proof -
  define M where "M = (case mismatch_detail r of None \<Rightarrow> []
      | Some x \<Rightarrow> '','' @ QuoteJSONString ''mismatch_detail'' @ '':'' @ QuoteJSONString x) @ ''}''"
  define T where "T = (case reason r of None \<Rightarrow> []
      | Some x \<Rightarrow> '','' @ QuoteJSONString ''reason'' @ '':'' @ QuoteJSONString x) @ M"
  let ?S = "QuoteJSONString ''status'' @ '':'' @ QuoteJSONString (status r)"
  let ?R = "QuoteJSONString ''result'' @ '':'' @ QuoteJSONString (result r)"
  have form: "JSON_stringify (own_properties r) = ''{'' @ ?S @ ('','' @ ?R @ T)"
    unfolding T_def M_def
    by (cases "reason r"; cases "mismatch_detail r")
       (simp_all add: JSON_stringify_def own_properties_def)
  have r2: "read_optional ''mismatch_detail'' M = (mismatch_detail r, ''}'')"
  proof (cases "mismatch_detail r")
    case None
    then show ?thesis by (simp add: M_def read_optional_end)
  next
    case (Some y)
    then show ?thesis
      using read_optional_present [of "''mismatch_detail''" y "''}''"] by (simp add: M_def)
  qed
  have r1: "read_optional ''reason'' T = (reason r, M)"
  proof (cases "reason r")
    case (Some x)
    then show ?thesis
      using read_optional_present [of "''reason''" x M] by (simp add: T_def)
  next
    case None
    note rn = this
    show ?thesis
    proof (cases "mismatch_detail r")
      case None
      with rn show ?thesis by (simp add: T_def M_def read_optional_end)
    next
      case (Some y)
      with rn show ?thesis
        using read_optional_other [of "'':'' @ QuoteJSONString y @ ''}''"]
        by (simp add: T_def M_def)
    qed
  qed
  have s1: "read_field ''status'' (?S @ ('','' @ ?R @ T)) = Some (status r, '','' @ ?R @ T)"
    using read_field_quoted [of "''status''" "status r" "'','' @ ?R @ T"] by simp
  have s2: "read_field ''result'' (?R @ T) = Some (result r, T)"
    using read_field_quoted [of "''result''" "result r" T] by simp
  have "parse_params (''{'' @ ?S @ ('','' @ ?R @ T)) = Some r"
    unfolding parse_params_def
    by (simp only: after_prefix_append s1 s2 r1 r2 option.case prod.case Let_def) simp
  then show ?thesis by (simp only: form)
qed

lemma parse_json_msg:
  "parse_params_msg (JSON_stringify (own_properties_msg m)) = Some m"
proof -
  let ?S = "QuoteJSONString ''status'' @ '':'' @ QuoteJSONString (status_msg m)"
  let ?R = "QuoteJSONString ''message'' @ '':'' @ QuoteJSONString (message m)"
  have form: "JSON_stringify (own_properties_msg m) = ''{'' @ ?S @ ('','' @ ?R @ ''}'')"
    by (simp add: JSON_stringify_def own_properties_msg_def)
  have s1: "read_field ''status'' (?S @ ('','' @ ?R @ ''}'')) = Some (status_msg m, '','' @ ?R @ ''}'')"
    using read_field_quoted [of "''status''" "status_msg m" "'','' @ ?R @ ''}''"] by simp
  have s2: "read_field ''message'' (?R @ ''}'') = Some (message m, ''}'')"
    using read_field_quoted [of "''message''" "message m" "''}''"] by simp
  have "parse_params_msg (''{'' @ ?S @ ('','' @ ?R @ ''}'')) = Some m"
    unfolding parse_params_msg_def
    by (simp only: after_prefix_append s1 s2 option.case prod.case) simp
  then show ?thesis by (simp only: form)
qed

section \<open>The rendering\<close>

lemma display_join:
  assumes "status r \<noteq> []" "result r \<noteq> []"
  shows "returnDisplay (fst (execute r sig w))
       = join ''\<newline>'' (map render_line (populated (display_fields r)))"
  using assms
  by (cases "reason r"; cases "mismatch_detail r")
     (simp_all add: execute_def display_fields_def render_line_def Let_def)

lemma display_join_msg:
  assumes "status_msg m \<noteq> []" "message m \<noteq> []"
  shows "returnDisplay (fst (execute_msg m sig w))
       = join ''\<newline>'' (map render_line (populated (display_fields_msg m)))"
  using assms
  by (simp add: execute_msg_def display_fields_msg_def render_line_def Let_def)

lemma lines_from_single:
  "single_line x \<Longrightarrow> lines_from cur (x @ rest) = lines_from (cur @ x) rest"
  by (induction x arbitrary: cur) (auto simp: single_line_def)

lemma lines_of_join:
  assumes "\<forall>l \<in> set ls. single_line l \<and> l \<noteq> []"
  shows "lines_of (join ''\<newline>'' ls) = ls"
  using assms
proof (induction ls rule: induct_list012)
  case 1
  then show ?case by (simp add: lines_of_def)
next
  case (2 x)
  then show ?case
    using lines_from_single [of x "[]" "[]"] by (simp add: lines_of_def)
next
  case (3 x y zs)
  then show ?case
    using lines_from_single [of x "[]" "CHR 0x0A # join ''\<newline>'' (y # zs)"]
    by (simp add: lines_of_def)
qed

lemma populated_labels:
  "(l, v) \<in> set (populated fs) \<Longrightarrow> (l, Some v) \<in> set fs \<and> v \<noteq> []"
  by (induction fs rule: populated.induct) (auto split: if_splits)

lemma display_lines:
  assumes "status r \<noteq> []" "result r \<noteq> []"
    and "\<forall>f \<in> set (populated (display_fields r)). single_line (snd f)"
  shows "lines_of (returnDisplay (fst (execute r sig w))) = map render_line (populated (display_fields r))"
proof -
  have "single_line (render_line f) \<and> render_line f \<noteq> []"
    if "f \<in> set (populated (display_fields r))" for f
  proof -
    obtain l v where f: "f = (l, v)" by (cases f)
    with that have "(l, Some v) \<in> set (display_fields r)"
      using populated_labels by blast
    then have "single_line l"
      by (auto simp: display_fields_def single_line_def)
    moreover have "single_line v" using assms(3) that f by auto
    ultimately show ?thesis
      by (simp add: render_line_def f single_line_def)
  qed
  then show ?thesis
    using assms by (simp add: display_join lines_of_join)
qed

lemma display_lines_msg:
  assumes "status_msg m \<noteq> []" "message m \<noteq> []"
    and "\<forall>f \<in> set (populated (display_fields_msg m)). single_line (snd f)"
  shows "lines_of (returnDisplay (fst (execute_msg m sig w))) = map render_line (populated (display_fields_msg m))"
proof -
  have "single_line (render_line f) \<and> render_line f \<noteq> []"
    if "f \<in> set (populated (display_fields_msg m))" for f
  proof -
    obtain l v where f: "f = (l, v)" by (cases f)
    with that have "(l, Some v) \<in> set (display_fields_msg m)"
      using populated_labels by blast
    then have "single_line l"
      by (auto simp: display_fields_msg_def single_line_def)
    moreover have "single_line v" using assms(3) that f by auto
    ultimately show ?thesis
      by (simp add: render_line_def f single_line_def)
  qed
  then show ?thesis
    using assms by (simp add: display_join_msg lines_of_join)
qed


lemma execute_record:
  "fst (execute r sig w) = \<lparr> llmContent = [\<lparr> part_text = JSON_stringify (own_properties r) \<rparr>],
                     returnDisplay = returnDisplay (fst (execute r sig w)) \<rparr>"
  by (simp add: execute_def Let_def)

lemma execute_msg_record:
  "fst (execute_msg m sig w) = \<lparr> llmContent = [\<lparr> part_text = JSON_stringify (own_properties_msg m) \<rparr>],
                         returnDisplay = returnDisplay (fst (execute_msg m sig w)) \<rparr>"
  by (simp add: execute_msg_def Let_def)

text \<open>
  C3, as amended. For a normalized record, \<open>execute\<close> returns exactly two values. The
  first is the JSON text of the record: an object with the keys \<open>status\<close> and
  \<open>result\<close> (or \<open>message\<close>) and, when they are defined, \<open>reason\<close> and
  \<open>mismatch_detail\<close>, from which the whole record can be read back. The second is the
  rendering: one entry \<open>Label: value\<close> for each populated field, status first, then the
  payload fields, the entries separated by line feeds; an optional field that is absent
  or empty has no entry. Each value is rendered as it is: when no value contains a line
  feed, the lines of the rendering are exactly the entries, one line for each populated
  field.
\<close>

theorem execute_two_outputs:
  fixes p :: ReportStatusParams and q :: ReportStatusParams_msg
  shows
    \<open>(validateToolParamValues p = None \<and> r = createInvocation p \<longrightarrow>
        fst (execute r sig w) =
          \<lparr> llmContent = [\<lparr> part_text = JSON_stringify (own_properties r) \<rparr>],
            returnDisplay = join ''\<newline>'' (map render_line (populated (display_fields r))) \<rparr>
      \<and> JSON_stringify (own_properties r) =
          ''{"status":'' @ QuoteJSONString (status r) @ '',"result":'' @ QuoteJSONString (result r)
          @ (case reason r of None \<Rightarrow> [] | Some x \<Rightarrow> '',"reason":'' @ QuoteJSONString x)
          @ (case mismatch_detail r of None \<Rightarrow> []
             | Some x \<Rightarrow> '',"mismatch_detail":'' @ QuoteJSONString x)
          @ ''}''
      \<and> parse_params (JSON_stringify (own_properties r)) = Some r
      \<and> ((\<forall>f \<in> set (populated (display_fields r)). single_line (snd f)) \<longrightarrow>
           lines_of (returnDisplay (fst (execute r sig w)))
             = map render_line (populated (display_fields r))))
   \<and> (validateToolParamValues_msg q = None \<and> m = createInvocation_msg q \<longrightarrow>
        fst (execute_msg m sig w) =
          \<lparr> llmContent = [\<lparr> part_text = JSON_stringify (own_properties_msg m) \<rparr>],
            returnDisplay = join ''\<newline>'' (map render_line (populated (display_fields_msg m))) \<rparr>
      \<and> JSON_stringify (own_properties_msg m) =
          ''{"status":'' @ QuoteJSONString (status_msg m) @ '',"message":''
          @ QuoteJSONString (message m) @ ''}''
      \<and> parse_params_msg (JSON_stringify (own_properties_msg m)) = Some m
      \<and> ((\<forall>f \<in> set (populated (display_fields_msg m)). single_line (snd f)) \<longrightarrow>
           lines_of (returnDisplay (fst (execute_msg m sig w)))
             = map render_line (populated (display_fields_msg m))))\<close>
proof (intro conjI impI)
  assume a: "validateToolParamValues p = None \<and> r = createInvocation p"
  then have ne: "status r \<noteq> []" "result r \<noteq> []"
    by (simp_all add: validate_None_iff createInvocation_def toLowerCase_Nil_iff)
  show "fst (execute r sig w) =
          \<lparr> llmContent = [\<lparr> part_text = JSON_stringify (own_properties r) \<rparr>],
            returnDisplay = join ''\<newline>'' (map render_line (populated (display_fields r))) \<rparr>"
    using execute_record [of r sig w] display_join [OF ne, of sig w] by simp
  show "parse_params (JSON_stringify (own_properties r)) = Some r"
    by (rule parse_json)
  show "lines_of (returnDisplay (fst (execute r sig w))) = map render_line (populated (display_fields r))"
    if "\<forall>f \<in> set (populated (display_fields r)). single_line (snd f)"
    using display_lines [OF ne that] .
next
  assume a: "validateToolParamValues_msg q = None \<and> m = createInvocation_msg q"
  then have ne: "status_msg m \<noteq> []" "message m \<noteq> []"
    by (simp_all add: validate_msg_None_iff createInvocation_msg_def toLowerCase_Nil_iff)
  show "fst (execute_msg m sig w) =
          \<lparr> llmContent = [\<lparr> part_text = JSON_stringify (own_properties_msg m) \<rparr>],
            returnDisplay = join ''\<newline>'' (map render_line (populated (display_fields_msg m))) \<rparr>"
    using execute_msg_record [of m sig w] display_join_msg [OF ne, of sig w] by simp
  show "parse_params_msg (JSON_stringify (own_properties_msg m)) = Some m"
    by (rule parse_json_msg)
  show "lines_of (returnDisplay (fst (execute_msg m sig w)))
      = map render_line (populated (display_fields_msg m))"
    if "\<forall>f \<in> set (populated (display_fields_msg m)). single_line (snd f)"
    using display_lines_msg [OF ne that] .
qed (rule json_text json_text_msg)+

theorem execute_two_outputs_witness:
  \<open>fst (execute (createInvocation
       \<lparr>status = ''Rejected'', result = ''out of scope'', reason = Some [],
         mismatch_detail = Some ''no network''\<rparr>) (AbortSignal False) (sample_process [] []))
     = \<lparr> llmContent = [\<lparr> part_text =
           ''{"status":"rejected","result":"out of scope","reason":"","mismatch_detail":"no network"}'' \<rparr>],
         returnDisplay = ''Status: rejected\<newline>Result: out of scope\<newline>Mismatch Detail: no network'' \<rparr>
   \<and> lines_of (returnDisplay (fst (execute (createInvocation
       \<lparr>status = ''Rejected'', result = ''out of scope'', reason = Some [],
         mismatch_detail = Some ''no network''\<rparr>) (AbortSignal False) (sample_process [] []))))
     = [''Status: rejected'', ''Result: out of scope'', ''Mismatch Detail: no network'']
   \<and> fst (execute_msg (createInvocation_msg \<lparr>status_msg = ''SUCCESS'', message = ''done''\<rparr>)
       (AbortSignal False) (sample_process [] []))
     = \<lparr> llmContent = [\<lparr> part_text = ''{"status":"success","message":"done"}'' \<rparr>],
         returnDisplay = ''Status: success\<newline>Result: done'' \<rparr>
   \<and> lines_of (returnDisplay (fst (execute_msg
       (createInvocation_msg \<lparr>status_msg = ''SUCCESS'', message = ''done''\<rparr>) (AbortSignal False)
       (sample_process [] []))))
     = [''Status: success'', ''Result: done'']\<close>
proof -
  let ?p = "\<lparr>status = ''Rejected'', result = ''out of scope'', reason = Some [],
             mismatch_detail = Some ''no network''\<rparr>"
  let ?q = "\<lparr>status_msg = ''SUCCESS'', message = ''done''\<rparr>"
  have lc: "toLowerCase ''Rejected'' = ''rejected''" "toLowerCase ''SUCCESS'' = ''success''"
    by (simp_all add: toLowerCase_def toLowerCase_char_def char_of_eq_iff)
  have a: "validateToolParamValues ?p = None"
    by (simp add: validate_None_iff VALID_STATUSES_def lc)
  have b: "validateToolParamValues_msg ?q = None"
    by (simp add: validate_msg_None_iff VALID_STATUSES_def lc)
  have r: "createInvocation ?p = \<lparr>status = ''rejected'', result = ''out of scope'',
             reason = Some [], mismatch_detail = Some ''no network''\<rparr>"
    by (simp add: createInvocation_def lc)
  have m: "createInvocation_msg ?q = \<lparr>status_msg = ''success'', message = ''done''\<rparr>"
    by (simp add: createInvocation_msg_def lc)
  have q: "QuoteJSONString ''rejected'' = [CHR 0x22] @ ''rejected'' @ [CHR 0x22]"
    "QuoteJSONString ''out of scope'' = [CHR 0x22] @ ''out of scope'' @ [CHR 0x22]"
    "QuoteJSONString [] = [CHR 0x22, CHR 0x22]"
    "QuoteJSONString ''no network'' = [CHR 0x22] @ ''no network'' @ [CHR 0x22]"
    "QuoteJSONString ''success'' = [CHR 0x22] @ ''success'' @ [CHR 0x22]"
    "QuoteJSONString ''done'' = [CHR 0x22] @ ''done'' @ [CHR 0x22]"
    by (simp_all add: QuoteJSONString_def quote_char_def)
  show ?thesis
    using a b execute_two_outputs
      [where p = ?p and r = "createInvocation ?p" and q = ?q and m = "createInvocation_msg ?q"
         and sig = "AbortSignal False" and w = "sample_process [] []"]
    by (simp add: r m q display_fields_def display_fields_msg_def render_line_def single_line_def
          lines_of_def)
qed

text \<open>
  C3 as it is written fails on a value with a line feed in it. The record below is
  accepted by validation and has two populated fields, and its rendering has three
  lines: the result is rendered as it is and continues on a line of its own.
\<close>

theorem multiline_value_counterexample:
  "validateToolParamValues
     \<lparr>status = ''success'', result = ''a\<newline>b'', reason = None, mismatch_detail = None\<rparr> = None
   \<and> populated (display_fields (createInvocation
       \<lparr>status = ''success'', result = ''a\<newline>b'', reason = None, mismatch_detail = None\<rparr>))
       = [(''Status'', ''success''), (''Result'', ''a\<newline>b'')]
   \<and> lines_of (returnDisplay (fst (execute (createInvocation
       \<lparr>status = ''success'', result = ''a\<newline>b'', reason = None, mismatch_detail = None\<rparr>)
       (AbortSignal False) (sample_process [] []))))
       = [''Status: success'', ''Result: a'', ''b'']
   \<and> length (lines_of (returnDisplay (fst (execute (createInvocation
       \<lparr>status = ''success'', result = ''a\<newline>b'', reason = None, mismatch_detail = None\<rparr>)
       (AbortSignal False) (sample_process [] []))))) = 3
   \<and> length (populated (display_fields (createInvocation
       \<lparr>status = ''success'', result = ''a\<newline>b'', reason = None, mismatch_detail = None\<rparr>))) = 2"
proof -
  have lc: "toLowerCase ''success'' = ''success''"
    by (simp add: toLowerCase_def toLowerCase_char_def)
  show ?thesis
    by (simp add: validate_None_iff VALID_STATUSES_def createInvocation_def lc display_fields_def
          execute_def lines_of_def Let_def)
qed


section \<open>The reporting action has no effect\<close>

lemma execute_repeatedly_eq:
  "execute_repeatedly r sigs w = (replicate (length sigs) (fst (execute r sig w')), w)"
  by (induction sigs) (simp_all add: execute_def Let_def)

lemma execute_repeatedly_msg_eq:
  "execute_repeatedly_msg m sigs w = (replicate (length sigs) (fst (execute_msg m sig w')), w)"
  by (induction sigs) (simp_all add: execute_msg_def Let_def)

text \<open>
  C7. \<open>execute\<close> runs in the process and leaves it as it found it: the environment, the
  state of the engine and of everything behind it, and the log of effects are the same
  after the execution as before, so nothing is written to a stream or a file, no
  collaborator is called, no request goes out. Its result depends on the record only,
  not on the abort signal and not on the process. Executing a record any number of
  times, one execution after the other, gives the same pair of values each time and
  leaves the process unchanged: each execution is performed once, and none is repeated.
\<close>

theorem execute_idempotent:
  "snd (execute r sig w) = w
   \<and> actions (snd (execute r sig w)) = actions w
   \<and> fst (execute r sig w) = fst (execute r sig' w')
   \<and> execute_repeatedly r sigs w = (replicate (length sigs) (fst (execute r sig w)), w)
   \<and> snd (execute_msg m sig w) = w
   \<and> actions (snd (execute_msg m sig w)) = actions w
   \<and> fst (execute_msg m sig w) = fst (execute_msg m sig' w')
   \<and> execute_repeatedly_msg m sigs w = (replicate (length sigs) (fst (execute_msg m sig w)), w)"
proof -
  have "snd (execute r sig w) = w" "snd (execute_msg m sig w) = w"
    by (simp_all add: execute_def execute_msg_def Let_def)
  moreover have "fst (execute r sig w) = fst (execute r sig' w')"
    "fst (execute_msg m sig w) = fst (execute_msg m sig' w')"
    by (simp_all add: execute_def execute_msg_def Let_def)
  ultimately show ?thesis
    using execute_repeatedly_eq [of r sigs w sig w] execute_repeatedly_msg_eq [of m sigs w sig w]
    by simp
qed

theorem execute_idempotent_witness:
  "snd (execute \<lparr>status = ''failure'', result = ''disk full'', reason = Some ''io'',
                  mismatch_detail = None\<rparr> (AbortSignal False)
          (sample_process [''node'', ''bridge.js'', ''do it''] [(''HOME'', ''/root'')]))
     = sample_process [''node'', ''bridge.js'', ''do it''] [(''HOME'', ''/root'')]
   \<and> actions (snd (execute \<lparr>status = ''failure'', result = ''disk full'', reason = Some ''io'',
                  mismatch_detail = None\<rparr> (AbortSignal False)
          (sample_process [''node'', ''bridge.js'', ''do it''] [(''HOME'', ''/root'')])))
     = actions (sample_process [''node'', ''bridge.js'', ''do it''] [(''HOME'', ''/root'')])
   \<and> fst (execute \<lparr>status = ''failure'', result = ''disk full'', reason = Some ''io'',
                  mismatch_detail = None\<rparr> (AbortSignal False)
          (sample_process [''node'', ''bridge.js'', ''do it''] [(''HOME'', ''/root'')]))
     = fst (execute \<lparr>status = ''failure'', result = ''disk full'', reason = Some ''io'',
                  mismatch_detail = None\<rparr> (AbortSignal True) (sample_process [] []))
   \<and> execute_repeatedly \<lparr>status = ''failure'', result = ''disk full'', reason = Some ''io'',
                  mismatch_detail = None\<rparr> [AbortSignal False, AbortSignal True, AbortSignal False]
          (sample_process [''node'', ''bridge.js'', ''do it''] [(''HOME'', ''/root'')])
     = (replicate (length [AbortSignal False, AbortSignal True, AbortSignal False])
          (fst (execute \<lparr>status = ''failure'', result = ''disk full'', reason = Some ''io'',
                  mismatch_detail = None\<rparr> (AbortSignal False)
             (sample_process [''node'', ''bridge.js'', ''do it''] [(''HOME'', ''/root'')]))),
        sample_process [''node'', ''bridge.js'', ''do it''] [(''HOME'', ''/root'')])
   \<and> snd (execute_msg \<lparr>status_msg = ''failure'', message = ''disk full''\<rparr> (AbortSignal False)
          (sample_process [''node'', ''bridge.js'', ''do it''] [(''HOME'', ''/root'')]))
     = sample_process [''node'', ''bridge.js'', ''do it''] [(''HOME'', ''/root'')]
   \<and> actions (snd (execute_msg \<lparr>status_msg = ''failure'', message = ''disk full''\<rparr>
          (AbortSignal False)
          (sample_process [''node'', ''bridge.js'', ''do it''] [(''HOME'', ''/root'')])))
     = actions (sample_process [''node'', ''bridge.js'', ''do it''] [(''HOME'', ''/root'')])
   \<and> fst (execute_msg \<lparr>status_msg = ''failure'', message = ''disk full''\<rparr> (AbortSignal False)
          (sample_process [''node'', ''bridge.js'', ''do it''] [(''HOME'', ''/root'')]))
     = fst (execute_msg \<lparr>status_msg = ''failure'', message = ''disk full''\<rparr> (AbortSignal True)
          (sample_process [] []))
   \<and> execute_repeatedly_msg \<lparr>status_msg = ''failure'', message = ''disk full''\<rparr>
          [AbortSignal False, AbortSignal True, AbortSignal False]
          (sample_process [''node'', ''bridge.js'', ''do it''] [(''HOME'', ''/root'')])
     = (replicate (length [AbortSignal False, AbortSignal True, AbortSignal False])
          (fst (execute_msg \<lparr>status_msg = ''failure'', message = ''disk full''\<rparr> (AbortSignal False)
             (sample_process [''node'', ''bridge.js'', ''do it''] [(''HOME'', ''/root'')]))),
        sample_process [''node'', ''bridge.js'', ''do it''] [(''HOME'', ''/root'')])"
  by (rule execute_idempotent)


section \<open>Command-line flags and the environment\<close>

lemma indexOf_absent: "f \<notin> set args \<Longrightarrow> indexOf args f = - 1"
  by (induction args) (auto simp: Let_def)

lemma indexOf_present: "f \<in> set args \<Longrightarrow> 0 \<le> indexOf args f"
  by (induction args) (auto simp: Let_def)

lemma following_absent: "f \<notin> set args \<Longrightarrow> following f args = None"
  by (induction f args rule: following.induct) auto

lemma array_at_Cons_Suc: "array_at (x # xs) (Suc n) = array_at xs n"
  by (simp add: array_at_def)

lemma array_at_indexOf:
  "f \<in> set args \<Longrightarrow> array_at args (nat (indexOf args f + 1)) = following f args"
proof (induction f args rule: following.induct)
  case (1 f)
  then show ?case by simp
next
  case (2 f x)
  then show ?case by (simp add: array_at_def)
next
  case (3 f x y zs)
  show ?case
  proof (cases "x = f")
    case True
    then show ?thesis by (simp add: array_at_def)
  next
    case False
    with 3 have in_rest: "f \<in> set (y # zs)" by simp
    then have nn: "0 \<le> indexOf (y # zs) f" by (rule indexOf_present)
    then have "indexOf (x # y # zs) f = indexOf (y # zs) f + 1"
      using False by (simp add: Let_def)
    moreover have "nat (indexOf (y # zs) f + 1 + 1) = Suc (nat (indexOf (y # zs) f + 1))"
      using nn by simp
    ultimately have "array_at (x # y # zs) (nat (indexOf (x # y # zs) f + 1))
        = array_at (y # zs) (nat (indexOf (y # zs) f + 1))"
      by (simp only: array_at_Cons_Suc)
    with 3 False in_rest show ?thesis by simp
  qed
qed

lemma getArgValue_following:
  "getArgValue args f =
     (case following f args of None \<Rightarrow> None | Some v \<Rightarrow> if v = [] then None else Some v)"
proof (cases "f \<in> set args")
  case True
  then have "indexOf args f \<noteq> - 1"
    using indexOf_present [of f args] by simp
  with True show ?thesis
    by (cases "following f args") (simp_all add: getArgValue_def Let_def array_at_indexOf)
next
  case False
  then show ?thesis
    by (simp add: getArgValue_def indexOf_absent following_absent)
qed

text \<open>
  C6, as amended. For the API key and for the base URL the bridge passes on the argument
  that follows the first occurrence of the flag when there is such an argument and it is
  not empty; in every other case (the flag is absent, is the last argument, or is
  followed by an empty argument) it passes on the value of the environment variable.
\<close>

theorem flag_then_environment:
  "openaiApiKey (mockArgs args e pr) =
     (case following ''--openai-api-key'' args of
        None \<Rightarrow> getenv e ''OPENAI_API_KEY''
      | Some v \<Rightarrow> if v = [] then getenv e ''OPENAI_API_KEY'' else Some v)
   \<and> openaiBaseUrl (mockArgs args e pr) =
     (case following ''--openai-base-url'' args of
        None \<Rightarrow> getenv e ''OPENAI_BASE_URL''
      | Some v \<Rightarrow> if v = [] then getenv e ''OPENAI_BASE_URL'' else Some v)"
  by (simp add: mockArgs_def js_or_def getArgValue_following Let_def split: option.splits)

theorem flag_then_environment_witness:
  "openaiApiKey (mockArgs [''node'', ''bridge.js'', ''do it'', ''--openai-api-key'', ''k1'']
       [(''OPENAI_API_KEY'', ''k2''), (''OPENAI_BASE_URL'', ''http://env'')] ''do it'') = Some ''k1''
   \<and> openaiBaseUrl (mockArgs [''node'', ''bridge.js'', ''do it'', ''--openai-api-key'', ''k1'']
       [(''OPENAI_API_KEY'', ''k2''), (''OPENAI_BASE_URL'', ''http://env'')] ''do it'')
       = Some ''http://env''"
  using flag_then_environment
    [of "[''node'', ''bridge.js'', ''do it'', ''--openai-api-key'', ''k1'']"
        "[(''OPENAI_API_KEY'', ''k2''), (''OPENAI_BASE_URL'', ''http://env'')]" "''do it''"]
  by (simp add: getenv_def)

text \<open>
  C6 as it is written fails when the flag is the last argument: the flag is present,
  and the bridge still takes the key from the environment.
\<close>

theorem flag_last_argument_counterexample:
  "''--openai-api-key'' \<in> set [''node'', ''bridge.js'', ''do it'', ''--openai-api-key'']
   \<and> following ''--openai-api-key'' [''node'', ''bridge.js'', ''do it'', ''--openai-api-key''] = None
   \<and> openaiApiKey (mockArgs [''node'', ''bridge.js'', ''do it'', ''--openai-api-key'']
         [(''OPENAI_API_KEY'', ''from-env'')] ''do it'') = Some ''from-env''"
  by (simp add: mockArgs_def js_or_def getArgValue_def array_at_def getenv_def Let_def)


section \<open>What each step of the bridge does to the process\<close>

lemma log_action_fields:
  "actions (log_action a p) = actions p @ [a]" "env (log_action a p) = env p"
  "argv (log_action a p) = argv p" "engine (log_action a p) = engine p"
  "cwd (log_action a p) = cwd p"
  by (simp_all add: log_action_def)

lemma set_env_fields:
  "actions (set_env k v p) = actions p @ [EnvSet k v]" "env (set_env k v p) = putenv k v (env p)"
  "argv (set_env k v p) = argv p" "engine (set_env k v p) = engine p" "cwd (set_env k v p) = cwd p"
  by (simp_all add: set_env_def log_action_def)

lemma console_log_fields:
  "actions (console_log s p) = actions p @ [Print (s @ ''\<newline>'')]" "env (console_log s p) = env p"
  "argv (console_log s p) = argv p" "engine (console_log s p) = engine p"
  "cwd (console_log s p) = cwd p"
  by (simp_all add: console_log_def log_action_def)

lemma console_error_fields:
  "actions (console_error s p) = actions p @ [PrintErr (s @ ''\<newline>'')]"
  "env (console_error s p) = env p" "argv (console_error s p) = argv p"
  "engine (console_error s p) = engine p" "cwd (console_error s p) = cwd p"
  by (simp_all add: console_error_def log_action_def)

lemma process_exit_eq: "process_exit c p = (Exited c, log_action (Exit c) p)"
  by (simp add: process_exit_def)


subsection \<open>The log only grows\<close>







lemma disable_telemetry_fields:
  "actions (disable_telemetry p) = actions p @ [EnvSet ''QWEN_DISABLE_TELEMETRY'' ''true'',
                                               EnvSet ''QWEN_CODE_TELEMETRY_DISABLED'' ''1'']"
  "env (disable_telemetry p)
     = putenv ''QWEN_CODE_TELEMETRY_DISABLED'' ''1'' (putenv ''QWEN_DISABLE_TELEMETRY'' ''true'' (env p))"
  "argv (disable_telemetry p) = argv p" "engine (disable_telemetry p) = engine p"
  "cwd (disable_telemetry p) = cwd p"
  by (simp_all add: disable_telemetry_def set_env_fields Let_def)



subsection \<open>The four ways through \<open>main\<close>\<close>

lemma main_usage:
  assumes "\<not> truthy (array_at (argv p0) 2)"
  shows "main X p0 =
     (Exited 1, log_action (Exit 1)
        (console_error ''Usage: node oneagent-bridge.js <prompt>''
           (log_action ArgvRead (disable_telemetry p0))))"
  using assms
  by (simp add: main_def Let_def log_action_fields disable_telemetry_fields process_exit_eq)

lemma main_rejected:
  assumes "array_at (argv p0) 2 = Some pr" "pr \<noteq> []"
    and "configure X pr (log_action ArgvRead (disable_telemetry p0)) = (Some e, p1)"
  shows "main X p0 = (Rejected e, p1)"
  using assms
  by (simp add: main_def Let_def log_action_fields disable_telemetry_fields)

lemma main_success:
  assumes "array_at (argv p0) 2 = Some pr" "pr \<noteq> []"
    and "configure X pr (log_action ArgvRead (disable_telemetry p0)) = (None, p1)"
    and "attempt X pr (uuidv4 X (engine p1)) (log_action (Call ''uuidv4'') p1) = (None, p2)"
  shows "main X p0 = (Exited 0, log_action (Exit 0) (console_log SUCCESS_MARKER p2))"
  using assms
  by (simp add: main_def Let_def log_action_fields disable_telemetry_fields process_exit_eq)

lemma main_failure:
  assumes "array_at (argv p0) 2 = Some pr" "pr \<noteq> []"
    and "configure X pr (log_action ArgvRead (disable_telemetry p0)) = (None, p1)"
    and "attempt X pr (uuidv4 X (engine p1)) (log_action (Call ''uuidv4'') p1) = (Some e, p2)"
  shows "main X p0 =
     (Exited 1, log_action (Exit 1)
        (console_log (FAILURE_MARKER e) (console_error (''Bridge Error: '' @ inspect X e) p2)))"
  using assms
  by (simp add: main_def Let_def log_action_fields disable_telemetry_fields process_exit_eq)

lemma main_cases:
  obtains
    (usage) "\<not> truthy (array_at (argv p0) 2)"
  | (rejected) pr e p1 where "array_at (argv p0) 2 = Some pr" "pr \<noteq> []"
      "configure X pr (log_action ArgvRead (disable_telemetry p0)) = (Some e, p1)"
  | (success) pr p1 p2 where "array_at (argv p0) 2 = Some pr" "pr \<noteq> []"
      "configure X pr (log_action ArgvRead (disable_telemetry p0)) = (None, p1)"
      "attempt X pr (uuidv4 X (engine p1)) (log_action (Call ''uuidv4'') p1) = (None, p2)"
  | (failure) pr e p1 p2 where "array_at (argv p0) 2 = Some pr" "pr \<noteq> []"
      "configure X pr (log_action ArgvRead (disable_telemetry p0)) = (None, p1)"
      "attempt X pr (uuidv4 X (engine p1)) (log_action (Call ''uuidv4'') p1) = (Some e, p2)"
proof (cases "truthy (array_at (argv p0) 2)")
  case False
  then show ?thesis by (rule usage)
next
  case True
  then obtain pr where pr: "array_at (argv p0) 2 = Some pr" "pr \<noteq> []"
    by (cases "array_at (argv p0) 2") auto
  obtain r p1 where c: "configure X pr (log_action ArgvRead (disable_telemetry p0)) = (r, p1)"
    by (cases "configure X pr (log_action ArgvRead (disable_telemetry p0))")
  show ?thesis
  proof (cases r)
    case (Some e)
    with pr c show ?thesis by (intro rejected) auto
  next
    case None
    obtain r2 p2
      where a: "attempt X pr (uuidv4 X (engine p1)) (log_action (Call ''uuidv4'') p1) = (r2, p2)"
      by (cases "attempt X pr (uuidv4 X (engine p1)) (log_action (Call ''uuidv4'') p1)")
    show ?thesis
    proof (cases r2)
      case None
      with pr c \<open>r = None\<close> a show ?thesis by (intro success) auto
    next
      case (Some e)
      with pr c \<open>r = None\<close> a show ?thesis by (intro failure) auto
    qed
  qed
qed



section \<open>Standard output and its last line\<close>

lemma stdout_log_action: "stdout (log_action a p) = stdout p @ printed_text a"
  by (simp add: stdout_def log_action_fields)

lemma stdout_console_log: "stdout (console_log s p) = stdout p @ s @ ''\<newline>''"
  by (simp add: stdout_def console_log_fields)

lemma stdout_console_error: "stdout (console_error s p) = stdout p"
  by (simp add: stdout_def console_error_fields)

lemma stderr_log_action: "stderr (log_action a p) = stderr p @ printed_err_text a"
  by (simp add: stderr_def log_action_fields)

lemma stderr_console_error: "stderr (console_error s p) = stderr p @ s @ ''\<newline>''"
  by (simp add: stderr_def console_error_fields)

lemma stdout_disable_telemetry: "stdout (disable_telemetry p) = stdout p"
  by (simp add: stdout_def disable_telemetry_fields)

lemma stderr_disable_telemetry: "stderr (disable_telemetry p) = stderr p"
  by (simp add: stderr_def disable_telemetry_fields)

lemma lines_from_line_feed:
  "lines_from cur (xs @ CHR 0x0A # ys) = lines_from cur (xs @ [CHR 0x0A]) @ lines_from [] ys"
  by (induction xs arbitrary: cur) simp_all

lemma last_line_some: "lines_of s \<noteq> [] \<Longrightarrow> last_line s = Some (last (lines_of s))"
  by (cases "lines_of s") (simp_all add: last_line_def)

lemma lines_of_one: "single_line l \<Longrightarrow> lines_of (l @ ''\<newline>'') = [l]"
  using lines_from_single [of l "[]" "''\<newline>''"] by (simp add: lines_of_def)

lemma last_line_append:
  assumes "out = [] \<or> last out = CHR 0x0A" and "single_line l"
  shows "last_line (out @ l @ ''\<newline>'') = Some l"
proof (cases "out = []")
  case True
  with assms(2) show ?thesis by (simp add: last_line_some lines_of_one)
next
  case False
  with assms(1) obtain xs where out: "out = xs @ [CHR 0x0A]"
    by (metis append_butlast_last_id)
  have "lines_of (out @ l @ ''\<newline>'') = lines_from [] (xs @ [CHR 0x0A]) @ [l]"
    using lines_from_line_feed [of "[]" xs "l @ ''\<newline>''"] lines_of_one [OF assms(2)]
    by (simp add: out lines_of_def)
  then show ?thesis by (simp add: last_line_some)
qed

lemma SUCCESS_MARKER_single_line: "single_line SUCCESS_MARKER"
  by (simp add: SUCCESS_MARKER_def single_line_def)

section \<open>The usage error\<close>

text \<open>
  C5. When the bridge is started without a prompt argument (or with an empty one), it
  writes the usage message to standard error, exits with code 1, and writes nothing to
  standard output, so no marker line is printed; no collaborator is called.
\<close>

theorem usage_error:
  assumes "array_at (argv p0) 2 = None \<or> array_at (argv p0) 2 = Some []"
  shows "fst (main X p0) = Exited 1
       \<and> stderr (snd (main X p0)) = stderr p0 @ ''Usage: node oneagent-bridge.js <prompt>\<newline>''
       \<and> stdout (snd (main X p0)) = stdout p0
       \<and> actions (snd (main X p0)) = actions p0 @
           [EnvSet ''QWEN_DISABLE_TELEMETRY'' ''true'',
            EnvSet ''QWEN_CODE_TELEMETRY_DISABLED'' ''1'',
            ArgvRead,
            PrintErr ''Usage: node oneagent-bridge.js <prompt>\<newline>'',
            Exit 1]"
proof -
  have "\<not> truthy (array_at (argv p0) 2)"
    using assms by auto
  then show ?thesis
    by (simp add: main_usage stdout_log_action stdout_console_error stderr_log_action
          stderr_console_error stdout_disable_telemetry stderr_disable_telemetry
          log_action_fields console_error_fields disable_telemetry_fields)
qed

theorem usage_error_witness:
  "fst (main (sample_externals silent) (sample_process [''node'', ''bridge.js''] [])) = Exited 1
   \<and> stderr (snd (main (sample_externals silent) (sample_process [''node'', ''bridge.js''] [])))
       = ''Usage: node oneagent-bridge.js <prompt>\<newline>''
   \<and> stdout (snd (main (sample_externals silent) (sample_process [''node'', ''bridge.js''] []))) = []"
proof -
  have "array_at (argv (sample_process [''node'', ''bridge.js''] [])) 2 = None
      \<or> array_at (argv (sample_process [''node'', ''bridge.js''] [])) 2 = Some []"
    by (simp add: sample_process_def array_at_def)
  from usage_error [OF this, of "sample_externals silent"] show ?thesis
    by (simp add: sample_process_def stdout_def stderr_def)
qed

section \<open>Telemetry is switched off first\<close>




section \<open>The marker line\<close>

lemma main_exit_success:
  assumes "fst (main X p0) = Exited 0"
  obtains pr p1 p2 where "array_at (argv p0) 2 = Some pr" "pr \<noteq> []"
      "configure X pr (log_action ArgvRead (disable_telemetry p0)) = (None, p1)"
      "attempt X pr (uuidv4 X (engine p1)) (log_action (Call ''uuidv4'') p1) = (None, p2)"
proof (cases rule: main_cases [where ?p0.0 = p0 and X = X])
  case usage
  with assms show ?thesis by (simp add: main_usage)
next
  case (rejected pr e p1)
  with assms show ?thesis by (simp add: main_rejected)
next
  case (success pr p1 p2)
  then show ?thesis by (rule that)
next
  case (failure pr e p1 p2)
  with assms show ?thesis by (simp add: main_failure)
qed

lemma SUCCESS_MARKER_is_marker_line: "is_marker_line SUCCESS_MARKER"
  by (simp add: is_marker_line_def SUCCESS_MARKER_def after_prefix_def suffix_def)

text \<open>
  C10. Whenever the bridge exits with code 0, the last thing it writes to standard output
  is one fixed text, the success marker with the result
  \<open>Task completed successfully via native CLI.\<close>; the exit follows it directly. The text
  depends neither on the instruction nor on anything the collaborators did during the
  run. When the output before it is empty or ends with a line feed, the marker is the
  last line of standard output. The text has the form of a marker line.
\<close>

theorem success_marker_constant:
  assumes "fst (main X p0) = Exited 0"
  shows \<open>\<exists>pre. actions (snd (main X p0)) = pre @
            [Print (''__ONEAGENT_RESULT__:{"status":"success","result":"Task completed successfully via native CLI."}''
                    @ ''\<newline>''),
             Exit 0]
         \<and> stdout (snd (main X p0)) = concat (map printed_text pre)
             @ ''__ONEAGENT_RESULT__:{"status":"success","result":"Task completed successfully via native CLI."}''
             @ ''\<newline>''
         \<and> (concat (map printed_text pre) = [] \<or> last (concat (map printed_text pre)) = CHR 0x0A \<longrightarrow>
              last_line (stdout (snd (main X p0))) =
                Some ''__ONEAGENT_RESULT__:{"status":"success","result":"Task completed successfully via native CLI."}'')
         \<and> is_marker_line
              ''__ONEAGENT_RESULT__:{"status":"success","result":"Task completed successfully via native CLI."}''\<close>
proof -
  from assms obtain pr p1 p2 where c: "array_at (argv p0) 2 = Some pr" "pr \<noteq> []"
      "configure X pr (log_action ArgvRead (disable_telemetry p0)) = (None, p1)"
      "attempt X pr (uuidv4 X (engine p1)) (log_action (Call ''uuidv4'') p1) = (None, p2)"
    by (rule main_exit_success)
  have m: "main X p0 = (Exited 0, log_action (Exit 0) (console_log SUCCESS_MARKER p2))"
    using c by (rule main_success)
  have a: "actions (snd (main X p0)) = actions p2 @ [Print (SUCCESS_MARKER @ ''\<newline>''), Exit 0]"
    by (simp add: m log_action_fields console_log_fields)
  have s: "stdout (snd (main X p0)) = concat (map printed_text (actions p2)) @ SUCCESS_MARKER @ ''\<newline>''"
    by (simp add: stdout_def a)
  have l: "last_line (stdout (snd (main X p0))) = Some SUCCESS_MARKER"
    if "concat (map printed_text (actions p2)) = [] \<or> last (concat (map printed_text (actions p2))) = CHR 0x0A"
    unfolding s using that SUCCESS_MARKER_single_line by (rule last_line_append)
  from a s l SUCCESS_MARKER_is_marker_line show ?thesis
    unfolding SUCCESS_MARKER_def by blast
qed

section \<open>Runs with the sample collaborators\<close>

lemma call_silent:
  "call name silent p = (None, p\<lparr>actions := actions p @ [Call name, Print [], PrintErr []]\<rparr>)"
  by (simp add: call_def silent_def)

lemma call_throwing:
  "call name (throwing v) p = (Some v, p\<lparr>actions := actions p @ [Call name, Print [], PrintErr []]\<rparr>)"
  by (simp add: call_def throwing_def)

lemma sample_configure:
  "configure (sample_externals run) ''do it''
     (log_action ArgvRead (disable_telemetry (sample_process [''node'', ''bridge.js'', ''do it''] [])))
   = (None,
      \<lparr> argv = [''node'', ''bridge.js'', ''do it''],
        env = [(''QWEN_CODE_TELEMETRY_DISABLED'', ''1''), (''QWEN_DISABLE_TELEMETRY'', ''true'')],
        cwd = ''/work'', engine = (),
        actions =
          [EnvSet ''QWEN_DISABLE_TELEMETRY'' ''true'',
           EnvSet ''QWEN_CODE_TELEMETRY_DISABLED'' ''1'', ArgvRead,
           Call ''loadSettings'', Print [], PrintErr [],
           Call ''getUserExtensionsDir'', Print [], PrintErr [],
           Call ''ExtensionEnablementManager'', Print [], PrintErr [],
           ArgvRead,
           Print ''[bridge] Config: model=undefined, base_url=undefined...\<newline>'',
           Call ''loadCliConfig'', Print [], PrintErr [],
           Call ''initialize'', Print [], PrintErr [],
           Call ''refreshAuth'', Print [], PrintErr [],
           Call ''registerTool'', Print [], PrintErr [],
           Print ''[bridge] Starting native CLI loop...\<newline>''] \<rparr>)"
  by (simp add: configure_def sample_externals_def sample_process_def call_silent and_then_def
        log_action_def console_log_def disable_telemetry_def set_env_def putenv_def mockArgs_def
        getArgValue_def array_at_def js_or_def getenv_def Let_def)

lemma sample_success:
  "fst (main (sample_externals (chatty s)) (sample_process [''node'', ''bridge.js'', ''do it''] []))
     = Exited 0"
proof -
  have a: "array_at (argv (sample_process [''node'', ''bridge.js'', ''do it''] [])) 2 = Some ''do it''"
    by (simp add: sample_process_def array_at_def)
  obtain p2 where "attempt (sample_externals (chatty s)) ''do it''
      (uuidv4 (sample_externals (chatty s))
         (engine (snd (configure (sample_externals (chatty s)) ''do it''
            (log_action ArgvRead (disable_telemetry (sample_process [''node'', ''bridge.js'', ''do it''] [])))))))
      (log_action (Call ''uuidv4'')
         (snd (configure (sample_externals (chatty s)) ''do it''
            (log_action ArgvRead (disable_telemetry (sample_process [''node'', ''bridge.js'', ''do it''] []))))))
      = (None, p2)"
    by (simp add: attempt_def and_then_def call_def chatty_def silent_def sample_externals_def Let_def)
  then show ?thesis
    using main_success [OF a, of "sample_externals (chatty s)"
        "snd (configure (sample_externals (chatty s)) ''do it''
            (log_action ArgvRead (disable_telemetry (sample_process [''node'', ''bridge.js'', ''do it''] []))))" p2]
    by (simp add: sample_configure)
qed

theorem success_marker_constant_witness:
  \<open>\<exists>pre. actions (snd (main (sample_externals (chatty ''working\<newline>''))
              (sample_process [''node'', ''bridge.js'', ''do it''] []))) = pre @
            [Print (''__ONEAGENT_RESULT__:{"status":"success","result":"Task completed successfully via native CLI."}''
                    @ ''\<newline>''),
             Exit 0]
         \<and> stdout (snd (main (sample_externals (chatty ''working\<newline>''))
              (sample_process [''node'', ''bridge.js'', ''do it''] []))) = concat (map printed_text pre)
             @ ''__ONEAGENT_RESULT__:{"status":"success","result":"Task completed successfully via native CLI."}''
             @ ''\<newline>''
         \<and> (concat (map printed_text pre) = [] \<or> last (concat (map printed_text pre)) = CHR 0x0A \<longrightarrow>
              last_line (stdout (snd (main (sample_externals (chatty ''working\<newline>''))
              (sample_process [''node'', ''bridge.js'', ''do it''] [])))) =
                Some ''__ONEAGENT_RESULT__:{"status":"success","result":"Task completed successfully via native CLI."}'')
         \<and> is_marker_line
              ''__ONEAGENT_RESULT__:{"status":"success","result":"Task completed successfully via native CLI."}''\<close>
  using sample_success [of "''working\<newline>''"] by (rule success_marker_constant)

subsection \<open>A run that throws\<close>

lemma sample_failure:
  "main (sample_externals (throwing v)) (sample_process [''node'', ''bridge.js'', ''do it''] [])
   = (Exited 1,
      \<lparr> argv = [''node'', ''bridge.js'', ''do it''],
        env = [(''QWEN_DISABLE_TELEMETRY'', ''true''), (''QWEN_CODE_TELEMETRY_DISABLED'', ''1'')],
        cwd = ''/work'', engine = (),
        actions =
          [EnvSet ''QWEN_DISABLE_TELEMETRY'' ''true'',
           EnvSet ''QWEN_CODE_TELEMETRY_DISABLED'' ''1'', ArgvRead,
           Call ''loadSettings'', Print [], PrintErr [],
           Call ''getUserExtensionsDir'', Print [], PrintErr [],
           Call ''ExtensionEnablementManager'', Print [], PrintErr [],
           ArgvRead,
           Print ''[bridge] Config: model=undefined, base_url=undefined...\<newline>'',
           Call ''loadCliConfig'', Print [], PrintErr [],
           Call ''initialize'', Print [], PrintErr [],
           Call ''refreshAuth'', Print [], PrintErr [],
           Call ''registerTool'', Print [], PrintErr [],
           Print ''[bridge] Starting native CLI loop...\<newline>'',
           Call ''uuidv4'',
           EnvSet ''QWEN_DISABLE_TELEMETRY'' ''true'',
           Call ''createMinimalSettings'', Print [], PrintErr [],
           Call ''runNonInteractive'', Print [], PrintErr [],
           PrintErr (''Bridge Error: '' @ String_js v @ ''\<newline>''),
           Print (FAILURE_MARKER v @ ''\<newline>''),
           Exit 1] \<rparr>)"
  by (simp add: main_def configure_def attempt_def sample_externals_def sample_process_def
        call_silent call_throwing and_then_def process_exit_def log_action_def console_log_def
        console_error_def disable_telemetry_def set_env_def putenv_def mockArgs_def
        getArgValue_def array_at_def js_or_def getenv_def Let_def)

lemma FAILURE_MARKER_is_marker_line:
  "is_marker_line (FAILURE_MARKER e)"
proof -
  have "suffix [CHR 0x22, CHR ''}''] (''Bridge Exception: '' @ String_js e @ [CHR 0x22, CHR ''}''])"
    by (intro suffixI [of _ "''Bridge Exception: '' @ String_js e"]) simp
  then show ?thesis
    by (simp add: is_marker_line_def FAILURE_MARKER_def after_prefix_def)
qed

lemma FAILURE_MARKER_single_line:
  "single_line (String_js e) \<Longrightarrow> single_line (FAILURE_MARKER e)"
  by (simp add: FAILURE_MARKER_def single_line_def)

text \<open>
  What does hold when the run throws: the bridge catches the value, writes the failure
  marker with the string form of the value and exits with code 1. The marker is the last
  line of standard output when the string form has no line feed in it and the output
  before the marker ends with a line feed.
\<close>

lemma failure_marker_last_line:
  assumes "array_at (argv p0) 2 = Some pr" "pr \<noteq> []"
    and "configure X pr (log_action ArgvRead (disable_telemetry p0)) = (None, p1)"
    and "attempt X pr (uuidv4 X (engine p1)) (log_action (Call ''uuidv4'') p1) = (Some e, p2)"
  shows "fst (main X p0) = Exited 1"
    and "actions (snd (main X p0)) = actions p2 @
           [PrintErr (''Bridge Error: '' @ inspect X e @ ''\<newline>''),
            Print (FAILURE_MARKER e @ ''\<newline>''), Exit 1]"
    and "stdout (snd (main X p0)) = stdout p2 @ FAILURE_MARKER e @ ''\<newline>''"
    and "single_line (String_js e) \<Longrightarrow> stdout p2 = [] \<or> last (stdout p2) = CHR 0x0A \<Longrightarrow>
           last_line (stdout (snd (main X p0))) = Some (FAILURE_MARKER e)"
    and "is_marker_line (FAILURE_MARKER e)"
proof -
  have m: "main X p0 =
     (Exited 1, log_action (Exit 1)
        (console_log (FAILURE_MARKER e) (console_error (''Bridge Error: '' @ inspect X e) p2)))"
    using assms by (rule main_failure)
  show "fst (main X p0) = Exited 1" by (simp add: m)
  show "actions (snd (main X p0)) = actions p2 @
           [PrintErr (''Bridge Error: '' @ inspect X e @ ''\<newline>''),
            Print (FAILURE_MARKER e @ ''\<newline>''), Exit 1]"
    by (simp add: m log_action_fields console_log_fields console_error_fields)
  show s: "stdout (snd (main X p0)) = stdout p2 @ FAILURE_MARKER e @ ''\<newline>''"
    by (simp add: m stdout_log_action stdout_console_log stdout_console_error)
  show "last_line (stdout (snd (main X p0))) = Some (FAILURE_MARKER e)"
    if "single_line (String_js e)" "stdout p2 = [] \<or> last (stdout p2) = CHR 0x0A"
    unfolding s using that(2) FAILURE_MARKER_single_line [OF that(1)] by (rule last_line_append)
  show "is_marker_line (FAILURE_MARKER e)"
    by (rule FAILURE_MARKER_is_marker_line)
qed

text \<open>The run of the specification's example: the engine throws \<open>Error("boom")\<close>.\<close>

lemma boom:
  \<open>fst (main (sample_externals (throwing (JsError ''Error'' ''boom'')))
          (sample_process [''node'', ''bridge.js'', ''do it''] [])) = Exited 1\<close>
  \<open>last_line (stdout (snd (main (sample_externals (throwing (JsError ''Error'' ''boom'')))
          (sample_process [''node'', ''bridge.js'', ''do it''] []))))
     = Some ''__ONEAGENT_RESULT__:{"status":"failure","result":"Bridge Exception: Error: boom"}''\<close>
proof -
  let ?out = "''[bridge] Config: model=undefined, base_url=undefined...\<newline>''
      @ ''[bridge] Starting native CLI loop...\<newline>''"
  show "fst (main (sample_externals (throwing (JsError ''Error'' ''boom'')))
          (sample_process [''node'', ''bridge.js'', ''do it''] [])) = Exited 1"
    by (simp add: sample_failure)
  have "stdout (snd (main (sample_externals (throwing (JsError ''Error'' ''boom'')))
          (sample_process [''node'', ''bridge.js'', ''do it''] [])))
      = ?out @ FAILURE_MARKER (JsError ''Error'' ''boom'') @ ''\<newline>''"
    by (simp add: sample_failure stdout_def)
  moreover have "last_line (?out @ FAILURE_MARKER (JsError ''Error'' ''boom'') @ ''\<newline>'')
      = Some (FAILURE_MARKER (JsError ''Error'' ''boom''))"
    by (rule last_line_append) (simp_all add: FAILURE_MARKER_def single_line_def)
  ultimately show \<open>last_line (stdout (snd (main (sample_externals (throwing (JsError ''Error'' ''boom'')))
          (sample_process [''node'', ''bridge.js'', ''do it''] []))))
     = Some ''__ONEAGENT_RESULT__:{"status":"failure","result":"Bridge Exception: Error: boom"}''\<close>
    by (simp add: FAILURE_MARKER_def)
qed

text \<open>
  C4. The claim fails on a thrown value whose string form contains a line feed: the
  bridge writes the string form into the marker as it is, so the text it prints is broken
  over two lines, and the last line of standard output is what follows the line feed. It
  is not a marker line. The exit code is 1, as the claim says.
\<close>

theorem multiline_error_breaks_marker:
  \<open>fst (main (sample_externals (throwing (JsError ''Error'' ''a\<newline>b'')))
          (sample_process [''node'', ''bridge.js'', ''do it''] [])) = Exited 1
   \<and> stdout (snd (main (sample_externals (throwing (JsError ''Error'' ''a\<newline>b'')))
          (sample_process [''node'', ''bridge.js'', ''do it''] [])))
       = ''[bridge] Config: model=undefined, base_url=undefined...\<newline>''
         @ ''[bridge] Starting native CLI loop...\<newline>''
         @ ''__ONEAGENT_RESULT__:{"status":"failure","result":"Bridge Exception: Error: a\<newline>''
         @ ''b"}\<newline>''
   \<and> last_line (stdout (snd (main (sample_externals (throwing (JsError ''Error'' ''a\<newline>b'')))
          (sample_process [''node'', ''bridge.js'', ''do it''] [])))) = Some ''b"}''
   \<and> \<not> is_marker_line ''b"}''\<close>
proof -
  let ?out = \<open>''[bridge] Config: model=undefined, base_url=undefined...\<newline>''
         @ ''[bridge] Starting native CLI loop...\<newline>''
         @ ''__ONEAGENT_RESULT__:{"status":"failure","result":"Bridge Exception: Error: a\<newline>''\<close>
  have s: \<open>stdout (snd (main (sample_externals (throwing (JsError ''Error'' ''a\<newline>b'')))
          (sample_process [''node'', ''bridge.js'', ''do it''] [])))
       = ?out @ ''b"}'' @ ''\<newline>''\<close>
    by (simp add: sample_failure stdout_def FAILURE_MARKER_def)
  have l: \<open>last_line (?out @ ''b"}'' @ ''\<newline>'') = Some ''b"}''\<close>
    by (rule last_line_append) (simp_all add: single_line_def)
  have n: \<open>\<not> is_marker_line ''b"}''\<close>
    by (simp add: is_marker_line_def after_prefix_def)
  from s l n show ?thesis
    by (simp add: sample_failure)
qed

end
